theory Spec2Isabelle
  imports Complex_Main "HOL-Library.Sublist"
begin

section \<open>JavaScript values used by the engines\<close>

text \<open>
  The development embeds \<^verbatim>\<open>src/utils/deep-think/index.ts\<close>: the single-agent
  \<^verbatim>\<open>DeepThinkEngine\<close> and the multi-agent \<^verbatim>\<open>UltraThinkEngine\<close>.

  A JavaScript string is a sequence of UTF-16 code units. The model takes a string as a
  list of \<^typ>\<open>char\<close>, read as the code units below 256 (the Latin-1 range), which covers
  every literal the engines search for. The string methods below are the built-ins the
  source calls, restricted to that range.
\<close>

text \<open>\<^verbatim>\<open>String.prototype.indexOf\<close>: the position of the first occurrence, \<open>None\<close> for \<open>-1\<close>.\<close>

fun indexOf :: "string \<Rightarrow> string \<Rightarrow> nat option" where
  "indexOf [] m = (if m = [] then Some 0 else None)"
| "indexOf (c # cs) m =
     (if prefix m (c # cs) then Some 0 else map_option Suc (indexOf cs m))"

definition js_includes :: "string \<Rightarrow> string \<Rightarrow> bool" where
  "js_includes s m = (indexOf s m \<noteq> None)"

definition startsWith :: "string \<Rightarrow> string \<Rightarrow> bool" where
  "startsWith s m = prefix m s"

definition endsWith :: "string \<Rightarrow> string \<Rightarrow> bool" where
  "endsWith s m = suffix m s"

text \<open>
  The white space that \<^verbatim>\<open>trim\<close> removes, among the code units below 256: tab, line
  feed, vertical tab, form feed, carriage return, space and the no-break space.
\<close>

definition isWhiteSpace :: "char \<Rightarrow> bool" where
  "isWhiteSpace c = ((of_char c :: nat) \<in> {9, 10, 11, 12, 13, 32, 160})"

definition trim :: "string \<Rightarrow> string" where
  "trim s = rev (dropWhile isWhiteSpace (rev (dropWhile isWhiteSpace s)))"

text \<open>
  \<^verbatim>\<open>toLowerCase\<close> on the code units below 256: the letters A to Z and the accented
  capitals (192 to 222, the multiplication sign 215 apart) move up by 32.
\<close>

definition toLowerCaseChar :: "char \<Rightarrow> char" where
  "toLowerCaseChar c =
     (let n = (of_char c :: nat) in
      if (65 \<le> n \<and> n \<le> 90) \<or> (192 \<le> n \<and> n \<le> 222 \<and> n \<noteq> 215)
      then char_of (n + 32) else c)"

definition toLowerCase :: "string \<Rightarrow> string" where
  "toLowerCase s = map toLowerCaseChar s"

text \<open>A thrown value: an \<^verbatim>\<open>Error\<close> object with its message, or anything else.\<close>

datatype js_exn = JsError string | JsNonError

section \<open>The data model\<close>

text \<open>The string literal types of the two \<^verbatim>\<open>status\<close> fields, and the stage names.\<close>

datatype status = pending | thinking | verifying | correcting | completed | failed

datatype stage =
  Stage_initial | Stage_improvement | Stage_verification | Stage_correction
| Stage_planning | Stage_agentConfig | Stage_agentThinking | Stage_synthesis

record Verification =
  timestamp :: int
  passed :: bool
  bugReport :: string
  goodVerify :: string

text \<open>
  The records of the multi-agent engine come first, since \<^verbatim>\<open>AgentResult\<close> and
  \<^verbatim>\<open>UltraThinkResult\<close> share field names with the records of the single-agent engine:
  below, \<open>status\<close>, \<open>solution\<close>, \<open>verifications\<close> and \<open>finalSolution\<close> are the fields of
  \<^verbatim>\<open>DeepThinkIteration\<close> and \<^verbatim>\<open>DeepThinkResult\<close>, and those of the multi-agent records
  are written \<open>AgentResult.status\<close>, \<open>UltraThinkResult.finalSolution\<close> and so on.
\<close>

record AgentConfig =
  agentId :: string
  approach :: string
  specificPrompt :: string

record AgentResult = AgentConfig +
  status :: status
  progress :: nat
  solution :: "string option"
  verifications :: "Verification list option"
  error :: "string option"

record UltraThinkResult =
  plan :: string
  agentResults :: "AgentResult list"
  synthesis :: string
  finalSolution :: string
  totalAgents :: nat
  completedAgents :: nat

record DeepThinkIteration =
  iteration :: nat
  solution :: string
  verification :: Verification
  status :: status

record DeepThinkResult =
  initialThought :: string
  improvements :: "string list"
  iterations :: "DeepThinkIteration list"
  verifications :: "Verification list"
  finalSolution :: string
  totalIterations :: nat
  successfulVerifications :: nat

text \<open>
  \<^verbatim>\<open>DeepThinkOptions\<close>. The three limits are counts; an absent one takes the default
  the constructor spreads in (30, 3, 10). \<^verbatim>\<open>modelStages\<close> maps a stage to its model.
  The search options (\<^verbatim>\<open>enableWebSearch\<close>, \<^verbatim>\<open>searchProvider\<close>) only add tools to a
  request and are left out; the sink \<^verbatim>\<open>onProgress\<close> is modelled by the event list a
  run returns.
\<close>

record DeepThinkOptions =
  problemStatement :: string
  otherPrompts :: "string list"
  knowledgeContext :: "string option"
  maxIterations :: "nat option"
  requiredSuccessfulVerifications :: "nat option"
  maxErrorsBeforeGiveUp :: "nat option"
  thinkingModel :: string
  modelStages :: "(stage \<Rightarrow> string option) option"

record UltraThinkOptions = DeepThinkOptions +
  numAgents :: "nat option"

datatype DeepThinkProgressEvent =
  Ev_init string
| Ev_thinking nat string
| Ev_solution string nat
| Ev_verification bool nat
| Ev_correction nat
| Ev_success string nat
| Ev_failure string
| Ev_progress string


section \<open>The generation port\<close>

text \<open>
  Every prompt is a fixed template filled with run data, so a request is recorded by the
  data that fills its template: \<open>Req_verification problem detailed\<close> stands for the
  system prompt \<^verbatim>\<open>verificationSystemPrompt\<close> with the prompt
  \<^verbatim>\<open>buildVerificationPrompt(problem, detailed)\<close>, and so on.
\<close>

datatype gen_request =
  Req_initial string "string list" "string option"
| Req_improvement "string option" string string
| Req_verification string string
| Req_check string
| Req_correction "string option" string string string
| Req_plan string
| Req_agentConfig string
| Req_synthesis string string

datatype ext_call =
  CreateModelProvider string
| GenerateText gen_request
| GenerateObject gen_request

text \<open>
  The outside world of a run. \<^verbatim>\<open>createModelProvider\<close> (\<open>None\<close>: it resolved),
  \<^verbatim>\<open>generateText\<close> and \<^verbatim>\<open>generateObject\<close> answer the call with the given number
  (the count of external calls the run made before it), so they may answer the same
  request differently each time; \<open>Inl\<close> is the value they throw. \<^verbatim>\<open>generateObject\<close>
  returns the \<^verbatim>\<open>configs\<close> of an object that passed the schema. \<open>dateNow\<close> is the clock
  read in loop pass \<open>i\<close>.
\<close>

record gen_port =
  createModelProvider :: "nat \<Rightarrow> string \<Rightarrow> js_exn option"
  generateText :: "nat \<Rightarrow> gen_request \<Rightarrow> js_exn + string"
  generateObject :: "nat \<Rightarrow> gen_request \<Rightarrow> js_exn + AgentConfig list"
  dateNow :: "nat \<Rightarrow> int"

text \<open>What a run has done so far: the events it emitted and the calls it made, oldest first.\<close>

record run_state =
  events :: "DeepThinkProgressEvent list"
  calls :: "ext_call list"

type_synonym 'a io = "run_state \<Rightarrow> (js_exn + 'a) \<times> run_state"

definition return_io :: "'a \<Rightarrow> 'a io" where
  "return_io x st = (Inr x, st)"

definition throw_io :: "js_exn \<Rightarrow> 'a io" where
  "throw_io e st = (Inl e, st)"

text \<open>Sequencing of awaited steps: a thrown value ends the sequence.\<close>

definition bind_io :: "'a io \<Rightarrow> ('a \<Rightarrow> 'b io) \<Rightarrow> 'b io" where
  "bind_io m f st = (case m st of (Inl e, st') \<Rightarrow> (Inl e, st') | (Inr x, st') \<Rightarrow> f x st')"

definition emit :: "DeepThinkProgressEvent \<Rightarrow> unit io" where
  "emit event st = (Inr (), st\<lparr>events := events st @ [event]\<rparr>)"

definition await_createModelProvider :: "gen_port \<Rightarrow> string \<Rightarrow> unit io" where
  "await_createModelProvider orc model st =
     (case createModelProvider orc (length (calls st)) model of
        Some e \<Rightarrow> Inl e
      | None \<Rightarrow> Inr (),
      st\<lparr>calls := calls st @ [CreateModelProvider model]\<rparr>)"

definition await_generateText :: "gen_port \<Rightarrow> gen_request \<Rightarrow> string io" where
  "await_generateText orc req st =
     (generateText orc (length (calls st)) req, st\<lparr>calls := calls st @ [GenerateText req]\<rparr>)"

definition await_generateObject :: "gen_port \<Rightarrow> gen_request \<Rightarrow> AgentConfig list io" where
  "await_generateObject orc req st =
     (generateObject orc (length (calls st)) req,
      st\<lparr>calls := calls st @ [GenerateObject req]\<rparr>)"

section \<open>The single-agent engine\<close>

text \<open>The options as the constructor leaves them: an absent limit has its default.\<close>

definition maxIterations_of :: "'a DeepThinkOptions_scheme \<Rightarrow> nat" where
  "maxIterations_of opts = (case maxIterations opts of None \<Rightarrow> 30 | Some n \<Rightarrow> n)"

definition requiredSuccesses_of :: "'a DeepThinkOptions_scheme \<Rightarrow> nat" where
  "requiredSuccesses_of opts =
     (case requiredSuccessfulVerifications opts of None \<Rightarrow> 3 | Some n \<Rightarrow> n)"

definition maxErrors_of :: "'a DeepThinkOptions_scheme \<Rightarrow> nat" where
  "maxErrors_of opts = (case maxErrorsBeforeGiveUp opts of None \<Rightarrow> 10 | Some n \<Rightarrow> n)"

text \<open>\<^verbatim>\<open>this.options.modelStages?.[stage] || this.options.thinkingModel\<close>: an empty name is falsy.\<close>

definition getModelForStage :: "'a DeepThinkOptions_scheme \<Rightarrow> stage \<Rightarrow> string" where
  "getModelForStage opts stage =
     (case modelStages opts of
        None \<Rightarrow> thinkingModel opts
      | Some stages \<Rightarrow>
          (case stages stage of
             None \<Rightarrow> thinkingModel opts
           | Some m \<Rightarrow> if m = [] then thinkingModel opts else m))"

definition extractDetailedSolutionMarker :: string where
  "extractDetailedSolutionMarker = ''Detailed Solution''"

definition extractDetailedSolution :: "string \<Rightarrow> string \<Rightarrow> bool \<Rightarrow> string" where
  "extractDetailedSolution sol marker after =
     (case indexOf sol marker of
        None \<Rightarrow> (if after then [] else sol)
      | Some idx \<Rightarrow>
          if after then trim (drop (idx + length marker) sol)
          else trim (take idx sol))"

text \<open>The result of \<^verbatim>\<open>verifySolution\<close> is the pair \<open>(bugReport, goodVerify)\<close>.\<close>

definition verdict_passed :: "string \<times> string \<Rightarrow> bool" where
  "verdict_passed v = js_includes (toLowerCase (snd v)) ''yes''"

definition verifySolution ::
  "'a DeepThinkOptions_scheme \<Rightarrow> gen_port \<Rightarrow> string \<Rightarrow> string \<Rightarrow> (string \<times> string) io" where
  "verifySolution opts orc problem sol =
     (let detailedSolution = extractDetailedSolution sol extractDetailedSolutionMarker True in
      bind_io (emit (Ev_progress ''Verifying solution...'')) (\<lambda>_.
      bind_io (await_createModelProvider orc (getModelForStage opts Stage_verification)) (\<lambda>_.
      bind_io (await_generateText orc (Req_verification problem detailedSolution))
        (\<lambda>verificationOutput.
      bind_io (await_generateText orc (Req_check verificationOutput)) (\<lambda>goodVerify.
      return_io
        (if \<not> js_includes (toLowerCase goodVerify) ''yes''
         then extractDetailedSolution verificationOutput ''Detailed Verification'' False
         else [],
         goodVerify))))))"

text \<open>
  \<^verbatim>\<open>initialExploration\<close> is typed to return \<^verbatim>\<open>null\<close> too, which \<open>None\<close> stands for; no
  path of it does.
\<close>

definition initialExploration ::
  "'a DeepThinkOptions_scheme \<Rightarrow> gen_port \<Rightarrow> string \<Rightarrow> string list
     \<Rightarrow> (string \<times> (string \<times> string)) option io" where
  "initialExploration opts orc problem others =
     bind_io (emit (Ev_thinking 0 ''initial-exploration'')) (\<lambda>_.
     bind_io (await_createModelProvider orc (getModelForStage opts Stage_initial)) (\<lambda>_.
     bind_io (await_generateText orc (Req_initial problem others (knowledgeContext opts)))
       (\<lambda>firstSolution.
     bind_io (emit (Ev_solution firstSolution 0)) (\<lambda>_.
     bind_io (emit (Ev_thinking 0 ''self-improvement'')) (\<lambda>_.
     bind_io (await_createModelProvider orc (getModelForStage opts Stage_improvement)) (\<lambda>_.
     bind_io
       (await_generateText orc (Req_improvement (knowledgeContext opts) problem firstSolution))
       (\<lambda>improvedSolution.
     bind_io (emit (Ev_solution improvedSolution 0)) (\<lambda>_.
     bind_io (verifySolution opts orc problem improvedSolution) (\<lambda>v.
     bind_io (emit (Ev_verification (verdict_passed v) 0)) (\<lambda>_.
     return_io (Some (improvedSolution, v))))))))))))"

text \<open>The variables of \<^verbatim>\<open>run\<close> that the main loop reads and writes.\<close>

record loop_vars =
  cur_solution :: string
  cur_verification :: "string \<times> string"
  iterations_log :: "DeepThinkIteration list"
  verifications_log :: "Verification list"
  errorCount :: nat
  correctCount :: nat

datatype loop_exit = Continue loop_vars | Break loop_vars | Return DeepThinkResult

text \<open>
  One pass of the \<^verbatim>\<open>for\<close> loop of \<^verbatim>\<open>run\<close>, for the loop index \<open>i\<close>, in the
  order of the source: the two \<^verbatim>\<open>push\<close>es, the branch on \<^verbatim>\<open>passed\<close>, the test of
  \<^verbatim>\<open>correctCount\<close>, the new verification.
\<close>

definition record_pass :: "gen_port \<Rightarrow> nat \<Rightarrow> loop_vars \<Rightarrow> loop_vars" where
  "record_pass orc i lv =
     (let passed = verdict_passed (cur_verification lv);
          vers = verifications_log lv @
            [\<lparr>timestamp = dateNow orc i, passed = passed,
              bugReport = fst (cur_verification lv), goodVerify = snd (cur_verification lv)\<rparr>];
          its = iterations_log lv @
            [\<lparr>iteration = i, solution = cur_solution lv, verification = last vers,
              status = (if passed then completed else correcting)\<rparr>]
      in lv\<lparr>verifications_log := vers, iterations_log := its\<rparr>)"

definition not_passed_branch ::
  "'a DeepThinkOptions_scheme \<Rightarrow> gen_port \<Rightarrow> nat \<Rightarrow> loop_vars \<Rightarrow> loop_exit io" where
  "not_passed_branch opts orc i lv1 =
     (let lv2 = lv1\<lparr>correctCount := 0, errorCount := errorCount lv1 + 1\<rparr> in
      if errorCount lv2 \<ge> maxErrors_of opts then
        bind_io (emit (Ev_failure ''Too many errors'')) (\<lambda>_. return_io (Break lv2))
      else
        bind_io (emit (Ev_correction i)) (\<lambda>_.
        bind_io (await_createModelProvider orc (getModelForStage opts Stage_correction)) (\<lambda>_.
        bind_io
          (await_generateText orc
            (Req_correction (knowledgeContext opts) (problemStatement opts)
              (cur_solution lv2) (fst (cur_verification lv2))))
          (\<lambda>text.
        bind_io (emit (Ev_solution text (i + 1))) (\<lambda>_.
        return_io (Continue (lv2\<lparr>cur_solution := text\<rparr>)))))))"

definition passed_branch :: "loop_vars \<Rightarrow> loop_exit io" where
  "passed_branch lv1 =
     return_io (Continue (lv1\<lparr>correctCount := correctCount lv1 + 1, errorCount := 0\<rparr>))"

definition after_branch ::
  "'a DeepThinkOptions_scheme \<Rightarrow> gen_port \<Rightarrow> string \<Rightarrow> nat \<Rightarrow> loop_vars \<Rightarrow> loop_exit io" where
  "after_branch opts orc initialSolution i lv3 =
     (if correctCount lv3 \<ge> requiredSuccesses_of opts then
        bind_io (emit (Ev_success (cur_solution lv3) (i + 1))) (\<lambda>_.
        return_io (Return
          \<lparr>initialThought = initialSolution, improvements = [],
           iterations = iterations_log lv3, verifications = verifications_log lv3,
           finalSolution = cur_solution lv3, totalIterations = i + 1,
           successfulVerifications = correctCount lv3\<rparr>))
      else
        bind_io (verifySolution opts orc (problemStatement opts) (cur_solution lv3)) (\<lambda>v.
        bind_io (emit (Ev_verification (verdict_passed v) (i + 1))) (\<lambda>_.
        return_io (Continue (lv3\<lparr>cur_verification := v\<rparr>)))))"

definition loop_pass ::
  "'a DeepThinkOptions_scheme \<Rightarrow> gen_port \<Rightarrow> string \<Rightarrow> nat \<Rightarrow> loop_vars \<Rightarrow> loop_exit io" where
  "loop_pass opts orc initialSolution i lv =
     bind_io
       (if \<not> verdict_passed (cur_verification lv)
        then not_passed_branch opts orc i (record_pass orc i lv)
        else passed_branch (record_pass orc i lv))
       (\<lambda>x. case x of
          Continue lv3 \<Rightarrow> after_branch opts orc initialSolution i lv3
        | Break lv2 \<Rightarrow> return_io (Break lv2)
        | Return r \<Rightarrow> return_io (Return r))"

text \<open>How the loop ends: control falls to the code after it, or \<^verbatim>\<open>run\<close> has returned.\<close>

datatype loop_end = Fell_through loop_vars | Returned DeepThinkResult

function main_loop ::
  "'a DeepThinkOptions_scheme \<Rightarrow> gen_port \<Rightarrow> string \<Rightarrow> nat \<Rightarrow> loop_vars \<Rightarrow> loop_end io" where
  "main_loop opts orc initialSolution i lv st =
     (if i < maxIterations_of opts then
        (case loop_pass opts orc initialSolution i lv st of
           (Inl e, st') \<Rightarrow> (Inl e, st')
         | (Inr (Continue lv'), st') \<Rightarrow> main_loop opts orc initialSolution (Suc i) lv' st'
         | (Inr (Break lv'), st') \<Rightarrow> (Inr (Fell_through lv'), st')
         | (Inr (Return r), st') \<Rightarrow> (Inr (Returned r), st'))
      else (Inr (Fell_through lv), st))"
  by pat_completeness auto
termination
  by (relation "measure (\<lambda>(opts, orc, initialSolution, i, lv, st). maxIterations_of opts - i)")
    auto

text \<open>
  \<^verbatim>\<open>DeepThinkEngine.run\<close>, from the state a run has reached. The constant
  \<^verbatim>\<open>mode\<close> field of the result is left out.
\<close>

definition run_from :: "'a DeepThinkOptions_scheme \<Rightarrow> gen_port \<Rightarrow> DeepThinkResult io" where
  "run_from opts orc =
     bind_io (emit (Ev_init (problemStatement opts))) (\<lambda>_.
     bind_io (initialExploration opts orc (problemStatement opts) (otherPrompts opts))
       (\<lambda>initial.
     case initial of
       None \<Rightarrow> throw_io (JsError ''Failed in initial exploration'')
     | Some (initialSolution, initialVerification) \<Rightarrow>
         bind_io
           (main_loop opts orc initialSolution 0
             \<lparr>cur_solution = initialSolution, cur_verification = initialVerification,
              iterations_log = [], verifications_log = [], errorCount = 0,
              correctCount = (if verdict_passed initialVerification then 1 else 0)\<rparr>)
           (\<lambda>ended. case ended of
              Returned r \<Rightarrow> return_io r
            | Fell_through lv \<Rightarrow>
                bind_io (emit (Ev_failure ''Max iterations reached'')) (\<lambda>_.
                return_io
                  \<lparr>initialThought = initialSolution, improvements = [],
                   iterations = iterations_log lv, verifications = verifications_log lv,
                   finalSolution = cur_solution lv,
                   totalIterations = maxIterations_of opts,
                   successfulVerifications = correctCount lv\<rparr>))))"

text \<open>A run starts with nothing emitted and nothing called.\<close>

definition DeepThinkEngine_run ::
  "'a DeepThinkOptions_scheme \<Rightarrow> gen_port \<Rightarrow> (js_exn + DeepThinkResult) \<times> run_state" where
  "DeepThinkEngine_run opts orc = run_from opts orc \<lparr>events = [], calls = []\<rparr>"


text \<open>\<^verbatim>\<open>runDeepThink\<close> builds an engine from the options and runs it.\<close>

definition runDeepThink ::
  "'a DeepThinkOptions_scheme \<Rightarrow> gen_port \<Rightarrow> (js_exn + DeepThinkResult) \<times> run_state" where
  "runDeepThink opts orc = DeepThinkEngine_run opts orc"

section \<open>The multi-agent engine\<close>

text \<open>
  A value that \<^verbatim>\<open>JSON.parse\<close> returns. An object is the list of its properties, each
  key once.
\<close>

datatype json =
  JNull | JBool bool | JNum rat | JStr string | JArr "json list" | JObj "(string \<times> json) list"

text \<open>
  What the JavaScript engine supplies to \<^verbatim>\<open>generateAgentConfigs\<close>: \<^verbatim>\<open>JSON.parse\<close>
  (\<open>Inl\<close>: the message of the \<^verbatim>\<open>SyntaxError\<close> it throws) and the message of the
  \<^verbatim>\<open>TypeError\<close> that reading a property of \<^verbatim>\<open>null\<close> throws.
\<close>

record js_runtime =
  JSON_parse :: "string \<Rightarrow> string + json"
  nullReadMessage :: string

fun truthy :: "json \<Rightarrow> bool" where
  "truthy JNull = False"
| "truthy (JBool b) = b"
| "truthy (JNum n) = (n \<noteq> 0)"
| "truthy (JStr s) = (s \<noteq> [])"
| "truthy (JArr xs) = True"
| "truthy (JObj kvs) = True"

definition catch_io :: "'a io \<Rightarrow> (js_exn \<Rightarrow> 'a io) \<Rightarrow> 'a io" where
  "catch_io m handler st =
     (case m st of (Inl e, st') \<Rightarrow> handler e st' | (Inr x, st') \<Rightarrow> (Inr x, st'))"

definition generatePlan ::
  "'a DeepThinkOptions_scheme \<Rightarrow> gen_port \<Rightarrow> string \<Rightarrow> string io" where
  "generatePlan opts orc problem =
     bind_io (emit (Ev_progress ''Generating thinking plan...'')) (\<lambda>_.
     bind_io (await_createModelProvider orc (getModelForStage opts Stage_planning)) (\<lambda>_.
     await_generateText orc (Req_plan problem)))"

text \<open>The object that passed the schema, as the value \<^verbatim>\<open>result.object.configs\<close>.\<close>

definition json_of_AgentConfig :: "AgentConfig \<Rightarrow> json" where
  "json_of_AgentConfig c =
     JObj [(''agentId'', JStr (agentId c)), (''approach'', JStr (approach c)),
           (''specificPrompt'', JStr (specificPrompt c))]"

definition parse_failure_message :: "string \<Rightarrow> string \<Rightarrow> string" where
  "parse_failure_message msg jsonText =
     ''Failed to parse agent configurations. Original error: '' @ msg @ ''. '' @
     ''Response text: '' @ take 200 jsonText @ ''...''"

text \<open>The markdown fence that the fallback removes before it parses.\<close>

definition strip_code_fence :: "string \<Rightarrow> string" where
  "strip_code_fence text =
     (let jsonText = trim text;
          jsonText = (if startsWith jsonText ''```json'' then drop 7 jsonText
                      else if startsWith jsonText ''```'' then drop 3 jsonText
                      else jsonText);
          jsonText = (if endsWith jsonText ''```'' then take (length jsonText - 3) jsonText
                      else jsonText)
      in trim jsonText)"

text \<open>
  The inner \<^verbatim>\<open>try\<close> of the fallback:
  \<^verbatim>\<open>Array.isArray(parsed) ? parsed : parsed.configs || parsed\<close>, where reading
  \<^verbatim>\<open>configs\<close> of \<^verbatim>\<open>null\<close> throws into the same \<^verbatim>\<open>catch\<close> as a syntax error does.
\<close>

definition parse_agent_configs :: "js_runtime \<Rightarrow> string \<Rightarrow> js_exn + json" where
  "parse_agent_configs rt jsonText =
     (case JSON_parse rt jsonText of
        Inl msg \<Rightarrow> Inl (JsError (parse_failure_message msg jsonText))
      | Inr parsed \<Rightarrow>
          (case parsed of
             JArr xs \<Rightarrow> Inr parsed
           | JNull \<Rightarrow> Inl (JsError (parse_failure_message (nullReadMessage rt) jsonText))
           | JObj kvs \<Rightarrow>
               (case map_of kvs ''configs'' of
                  Some c \<Rightarrow> if truthy c then Inr c else Inr parsed
                | None \<Rightarrow> Inr parsed)
           | _ \<Rightarrow> Inr parsed))"

text \<open>
  \<^verbatim>\<open>generateAgentConfigs\<close>. It is declared to return an array of configurations; the
  fallback returns whatever the parse gave, so the result is a \<^typ>\<open>json\<close> value.
\<close>

definition generateAgentConfigs ::
  "js_runtime \<Rightarrow> 'a DeepThinkOptions_scheme \<Rightarrow> gen_port \<Rightarrow> string \<Rightarrow> json io" where
  "generateAgentConfigs rt opts orc thePlan =
     bind_io (emit (Ev_progress ''Generating agent configurations...'')) (\<lambda>_.
     bind_io (await_createModelProvider orc (getModelForStage opts Stage_agentConfig)) (\<lambda>_.
     catch_io
       (bind_io (await_generateObject orc (Req_agentConfig thePlan)) (\<lambda>configs.
        return_io (JArr (map json_of_AgentConfig configs))))
       (\<lambda>err.
        bind_io (await_generateText orc (Req_agentConfig thePlan)) (\<lambda>text.
        case parse_agent_configs rt (strip_code_fence text) of
          Inl e \<Rightarrow> throw_io e
        | Inr v \<Rightarrow> return_io v))))"

text \<open>The handler that \<^verbatim>\<open>runAgent\<close> gives its engine as \<^verbatim>\<open>onProgress\<close>.\<close>

fun agent_onProgress :: "DeepThinkProgressEvent \<Rightarrow> AgentResult \<Rightarrow> AgentResult" where
  "agent_onProgress (Ev_thinking it phase) result =
     result\<lparr>progress := min (20 + it * 2) 80, AgentResult.status := thinking\<rparr>"
| "agent_onProgress (Ev_verification p it) result = result\<lparr>AgentResult.status := verifying\<rparr>"
| "agent_onProgress (Ev_success s its) result =
     result\<lparr>AgentResult.status := completed, progress := 100\<rparr>"
| "agent_onProgress (Ev_failure reason) result =
     result\<lparr>AgentResult.status := failed, error := Some reason\<rparr>"
| "agent_onProgress _ result = result"

text \<open>\<^verbatim>\<open>err instanceof Error ? err.message : "Unknown error"\<close>\<close>

fun error_message :: "js_exn \<Rightarrow> string" where
  "error_message (JsError msg) = msg"
| "error_message JsNonError = ''Unknown error''"

text \<open>
  The options of the engine that \<^verbatim>\<open>runAgent\<close> builds, and \<^verbatim>\<open>runAgent\<close>: one engine
  on the agent's own port. The engine's events reach only the
  handler above, which writes to \<open>result\<close> and reads nothing, so the handler is applied to
  the events of the finished run in their order. Every path of \<^verbatim>\<open>runAgent\<close> returns the
  result: what the engine throws is caught.
\<close>

definition agent_engine_options ::
  "'a DeepThinkOptions_scheme \<Rightarrow> AgentConfig \<Rightarrow> string \<Rightarrow> 'a DeepThinkOptions_scheme" where
  "agent_engine_options opts config problem =
     opts\<lparr>thinkingModel := getModelForStage opts Stage_agentThinking,
          problemStatement := problem, otherPrompts := [specificPrompt config]\<rparr>"

definition runAgent ::
  "'a DeepThinkOptions_scheme \<Rightarrow> gen_port \<Rightarrow> AgentConfig \<Rightarrow> string \<Rightarrow> AgentResult" where
  "runAgent opts agent_port config problem =
     (let result = \<lparr>agentId = agentId config, approach = approach config,
                     specificPrompt = specificPrompt config,
                     AgentResult.status = thinking, progress = 0,
                     AgentResult.solution = None, AgentResult.verifications = None,
                     error = None\<rparr>;
          (outcome, st) =
            DeepThinkEngine_run (agent_engine_options opts config problem) agent_port;
          result = foldl (\<lambda>r event. agent_onProgress event r) result (events st)
      in case outcome of
           Inr deepThinkResult \<Rightarrow>
             result\<lparr>AgentResult.solution := Some (finalSolution deepThinkResult),
                    AgentResult.verifications := Some (verifications deepThinkResult),
                    AgentResult.status := completed, progress := 100\<rparr>
         | Inl err \<Rightarrow>
             result\<lparr>AgentResult.status := failed, error := Some (error_message err)\<rparr>)"

text \<open>The text of the agents' results in the synthesis prompt.\<close>

fun decimal :: "nat \<Rightarrow> string" where
  "decimal n =
     (if n < 10 then [char_of (48 + n)] else decimal (n div 10) @ [char_of (48 + n mod 10)])"

fun status_name :: "status \<Rightarrow> string" where
  "status_name pending = ''pending''"
| "status_name thinking = ''thinking''"
| "status_name verifying = ''verifying''"
| "status_name correcting = ''correcting''"
| "status_name completed = ''completed''"
| "status_name failed = ''failed''"

fun join :: "string \<Rightarrow> string list \<Rightarrow> string" where
  "join sep [] = []"
| "join sep [x] = x"
| "join sep (x # y # ys) = x @ sep @ join sep (y # ys)"

definition newline :: char where
  "newline = CHR 0x0A"

definition agentResultText :: "nat \<Rightarrow> AgentResult \<Rightarrow> string" where
  "agentResultText idx result =
     [newline] @ ''### Agent '' @ decimal (idx + 1) @ '': '' @ approach result @
     [newline, newline] @ ''**Status:** '' @ status_name (AgentResult.status result) @
     [newline] @
     (case error result of
        Some e \<Rightarrow> if e \<noteq> [] then ''**Error:** '' @ e else []
      | None \<Rightarrow> []) @
     [newline, newline] @ ''**Solution:**'' @ [newline] @
     (case AgentResult.solution result of
        Some s \<Rightarrow> if s \<noteq> [] then s else ''No solution generated''
      | None \<Rightarrow> ''No solution generated'') @
     [newline]"

definition agentResultsText :: "AgentResult list \<Rightarrow> string" where
  "agentResultsText results =
     join ([newline, newline] @ ''---'' @ [newline, newline])
       (map (\<lambda>(idx, result). agentResultText idx result) (zip [0..<length results] results))"

text \<open>
  \<^verbatim>\<open>numAgents ? configs.slice(0, numAgents) : configs\<close>: zero is falsy, so it leaves the
  list as it is, as an absent \<^verbatim>\<open>numAgents\<close> does.
\<close>

definition select_configs :: "nat option \<Rightarrow> AgentConfig list \<Rightarrow> AgentConfig list" where
  "select_configs n configs =
     (case n of
        None \<Rightarrow> configs
      | Some k \<Rightarrow> if k \<noteq> 0 then take k configs else configs)"

text \<open>
  \<^verbatim>\<open>Promise.all\<close> over \<^verbatim>\<open>runAgent\<close>: the agents share no state and each has its
  own port (\<open>agents k\<close> for the agent at position \<open>k\<close>), so the results are those of the
  single runs, in the order of the configurations, whatever the interleaving.
\<close>

definition run_agents ::
  "'a DeepThinkOptions_scheme \<Rightarrow> (nat \<Rightarrow> gen_port) \<Rightarrow> AgentConfig list \<Rightarrow> string
     \<Rightarrow> AgentResult list" where
  "run_agents opts agents selectedConfigs problem =
     map (\<lambda>(k, config). runAgent opts (agents k) config problem)
       (zip [0..<length selectedConfigs] selectedConfigs)"

text \<open>
  \<^verbatim>\<open>UltraThinkEngine.run\<close> from the point where \<open>configs\<close> is an array of
  configurations. The events are those of the engine's own \<^verbatim>\<open>onProgress\<close>; the calls of
  \<^verbatim>\<open>onAgentUpdate\<close> are not recorded.
\<close>

definition run_with_configs ::
  "'a UltraThinkOptions_scheme \<Rightarrow> gen_port \<Rightarrow> (nat \<Rightarrow> gen_port) \<Rightarrow> string
     \<Rightarrow> AgentConfig list \<Rightarrow> UltraThinkResult io" where
  "run_with_configs opts orc agents thePlan configs =
     (let selectedConfigs = select_configs (numAgents opts) configs;
          nAgents = length selectedConfigs
      in
      bind_io (emit (Ev_progress (''Running '' @ decimal nAgents @ '' agents in parallel...'')))
        (\<lambda>_.
      let results = run_agents opts agents selectedConfigs (problemStatement opts) in
      bind_io (emit (Ev_progress ''Synthesizing results...'')) (\<lambda>_.
      bind_io (await_createModelProvider orc (getModelForStage opts Stage_synthesis)) (\<lambda>_.
      bind_io
        (await_generateText orc
          (Req_synthesis (problemStatement opts) (agentResultsText results)))
        (\<lambda>synthesisText.
      bind_io (emit (Ev_success synthesisText 1)) (\<lambda>_.
      return_io
        \<lparr>plan = thePlan, agentResults = results, synthesis = synthesisText,
         UltraThinkResult.finalSolution = synthesisText, totalAgents = nAgents,
         completedAgents =
           length (filter (\<lambda>r. AgentResult.status r = completed) results)\<rparr>))))))"

text \<open>A \<^typ>\<open>json\<close> value as the array of configurations it is declared to be.\<close>

fun as_AgentConfig :: "json \<Rightarrow> AgentConfig option" where
  "as_AgentConfig (JObj kvs) =
     (case (map_of kvs ''agentId'', map_of kvs ''approach'', map_of kvs ''specificPrompt'') of
        (Some (JStr a), Some (JStr b), Some (JStr c)) \<Rightarrow>
          Some \<lparr>agentId = a, approach = b, specificPrompt = c\<rparr>
      | _ \<Rightarrow> None)"
| "as_AgentConfig _ = None"

fun as_AgentConfigs :: "json \<Rightarrow> AgentConfig list option" where
  "as_AgentConfigs (JArr xs) =
     (if list_all (\<lambda>x. as_AgentConfig x \<noteq> None) xs
      then Some (map (\<lambda>x. the (as_AgentConfig x)) xs) else None)"
| "as_AgentConfigs _ = None"

text \<open>
  The first part of \<^verbatim>\<open>UltraThinkEngine.run\<close>, from a fresh state: the plan and the
  value of \<^verbatim>\<open>configs\<close>.
\<close>

definition plan_and_configure ::
  "js_runtime \<Rightarrow> 'a DeepThinkOptions_scheme \<Rightarrow> gen_port
     \<Rightarrow> (js_exn + string \<times> json) \<times> run_state" where
  "plan_and_configure rt opts orc =
     bind_io (emit (Ev_init (problemStatement opts))) (\<lambda>_.
     bind_io (generatePlan opts orc (problemStatement opts)) (\<lambda>thePlan.
     bind_io (generateAgentConfigs rt opts orc thePlan) (\<lambda>configs.
     return_io (thePlan, configs))))
       \<lparr>events = [], calls = []\<rparr>"

text \<open>
  \<^verbatim>\<open>UltraThinkEngine.run\<close>. The model follows the declared types: where
  \<^verbatim>\<open>generateAgentConfigs\<close> returns a value that is not an array of configurations, the
  rest of the run is outside the model, and the result is \<open>None\<close>.
\<close>

definition UltraThinkEngine_run ::
  "js_runtime \<Rightarrow> 'a UltraThinkOptions_scheme \<Rightarrow> gen_port \<Rightarrow> (nat \<Rightarrow> gen_port)
     \<Rightarrow> ((js_exn + UltraThinkResult) \<times> run_state) option" where
  "UltraThinkEngine_run rt opts orc agents =
     (case plan_and_configure rt opts orc of
        (Inl e, st) \<Rightarrow> Some (Inl e, st)
      | (Inr (thePlan, configs), st) \<Rightarrow>
          (case as_AgentConfigs configs of
             None \<Rightarrow> None
           | Some typed \<Rightarrow> Some (run_with_configs opts orc agents thePlan typed st)))"

definition runUltraThink ::
  "js_runtime \<Rightarrow> 'a UltraThinkOptions_scheme \<Rightarrow> gen_port \<Rightarrow> (nat \<Rightarrow> gen_port)
     \<Rightarrow> ((js_exn + UltraThinkResult) \<times> run_state) option" where
  "runUltraThink rt opts orc agents = UltraThinkEngine_run rt opts orc agents"

section \<open>Observations on a run\<close>

fun is_verification_call :: "ext_call \<Rightarrow> bool" where
  "is_verification_call (GenerateText (Req_verification _ _)) = True"
| "is_verification_call _ = False"

fun is_correction_call :: "ext_call \<Rightarrow> bool" where
  "is_correction_call (GenerateText (Req_correction _ _ _ _)) = True"
| "is_correction_call _ = False"

fun is_failure :: "DeepThinkProgressEvent \<Rightarrow> bool" where
  "is_failure (Ev_failure _) = True"
| "is_failure _ = False"

fun is_success :: "DeepThinkProgressEvent \<Rightarrow> bool" where
  "is_success (Ev_success _ _) = True"
| "is_success _ = False"

text \<open>
  The number of \<^verbatim>\<open>verifySolution\<close> invocations of a run (each makes one verification
  request, its first generation call) and the number of correction-model invocations.
\<close>

definition verification_calls :: "run_state \<Rightarrow> nat" where
  "verification_calls st = length (filter is_verification_call (calls st))"

definition correction_calls :: "run_state \<Rightarrow> nat" where
  "correction_calls st = length (filter is_correction_call (calls st))"

definition failure_events :: "run_state \<Rightarrow> DeepThinkProgressEvent list" where
  "failure_events st = filter is_failure (events st)"

definition success_events :: "run_state \<Rightarrow> DeepThinkProgressEvent list" where
  "success_events st = filter is_success (events st)"

text \<open>
  Three kinds of outside world: one where no call throws, one where moreover every
  judgment (the answer to the yes/no question) passes, and one where every judgment fails.
\<close>

definition responsive :: "gen_port \<Rightarrow> bool" where
  "responsive orc \<longleftrightarrow>
     (\<forall>n m. createModelProvider orc n m = None) \<and> (\<forall>n r. \<exists>t. generateText orc n r = Inr t)"

definition always_passes :: "gen_port \<Rightarrow> bool" where
  "always_passes orc \<longleftrightarrow>
     responsive orc \<and>
     (\<forall>n v t. generateText orc n (Req_check v) = Inr t \<longrightarrow> js_includes (toLowerCase t) ''yes'')"

definition always_fails :: "gen_port \<Rightarrow> bool" where
  "always_fails orc \<longleftrightarrow>
     responsive orc \<and>
     (\<forall>n v t. generateText orc n (Req_check v) = Inr t \<longrightarrow> \<not> js_includes (toLowerCase t) ''yes'')"


text \<open>The configuration that an agent's result was made for.\<close>

definition config_of :: "AgentResult \<Rightarrow> AgentConfig" where
  "config_of r =
     \<lparr>agentId = agentId r, approach = approach r, specificPrompt = specificPrompt r\<rparr>"

section \<open>Predicates for the proofs\<close>

text \<open>
  \<open>advances st st' evs nv nc\<close>: from \<open>st\<close> to \<open>st'\<close> the run emitted exactly \<open>evs\<close> and
  made \<open>nv\<close> verification requests and \<open>nc\<close> correction requests.
\<close>

definition advances ::
  "run_state \<Rightarrow> run_state \<Rightarrow> DeepThinkProgressEvent list \<Rightarrow> nat \<Rightarrow> nat \<Rightarrow> bool" where
  "advances st st' evs nv nc \<longleftrightarrow>
     events st' = events st @ evs \<and>
     verification_calls st' = verification_calls st + nv \<and>
     correction_calls st' = correction_calls st + nc"

text \<open>\<open>returns m st Q\<close>: from \<open>st\<close> the step \<open>m\<close> returns, with a value and a state in \<open>Q\<close>.\<close>

definition returns :: "'a io \<Rightarrow> run_state \<Rightarrow> ('a \<Rightarrow> run_state \<Rightarrow> bool) \<Rightarrow> bool" where
  "returns m st Q \<longleftrightarrow> (\<exists>x st'. m st = (Inr x, st') \<and> Q x st')"

text \<open>
  \<open>ensures m st E Q\<close>: from \<open>st\<close> the step \<open>m\<close> either throws in a state in \<open>E\<close> or returns
  with a value and a state in \<open>Q\<close>.
\<close>

definition ensures ::
  "'a io \<Rightarrow> run_state \<Rightarrow> (run_state \<Rightarrow> bool) \<Rightarrow> ('a \<Rightarrow> run_state \<Rightarrow> bool) \<Rightarrow> bool" where
  "ensures m st E Q \<longleftrightarrow> (case m st of (Inl e, st') \<Rightarrow> E st' | (Inr x, st') \<Rightarrow> Q x st')"

definition quiet :: "run_state \<Rightarrow> run_state \<Rightarrow> bool" where
  "quiet st st' \<longleftrightarrow>
     failure_events st' = failure_events st \<and> success_events st' = success_events st"

text \<open>
  The invariant of the two logs after \<open>i\<close> passes: the iterations are numbered from 0 without
  a gap, each holds the verification recorded with it, and every \<open>passed\<close> is the test of
  its own \<open>goodVerify\<close>.
\<close>

definition logs_ok :: "nat \<Rightarrow> DeepThinkIteration list \<Rightarrow> Verification list \<Rightarrow> bool" where
  "logs_ok i its vers \<longleftrightarrow>
     map iteration its = [0..<i] \<and> map verification its = vers \<and>
     (\<forall>v\<in>set vers. passed v = js_includes (toLowerCase (goodVerify v)) ''yes'')"

section \<open>Sample inputs\<close>

text \<open>
  Options with every limit at its default, ports that always answer the same, and the
  options with a success threshold of one and of zero.
\<close>

definition sample_options :: DeepThinkOptions where
  "sample_options =
     \<lparr>problemStatement = ''P'', otherPrompts = [], knowledgeContext = None,
      maxIterations = None, requiredSuccessfulVerifications = None,
      maxErrorsBeforeGiveUp = None, thinkingModel = ''m'', modelStages = None\<rparr>"

definition yes_port :: gen_port where
  "yes_port =
     \<lparr>createModelProvider = (\<lambda>n m. None), generateText = (\<lambda>n r. Inr ''Yes.''),
      generateObject = (\<lambda>n r. Inl JsNonError), dateNow = (\<lambda>i. 0)\<rparr>"

definition no_port :: gen_port where
  "no_port =
     \<lparr>createModelProvider = (\<lambda>n m. None), generateText = (\<lambda>n r. Inr ''No.''),
      generateObject = (\<lambda>n r. Inl JsNonError), dateNow = (\<lambda>i. 0)\<rparr>"

definition one_pass_options :: DeepThinkOptions where
  "one_pass_options = sample_options\<lparr>requiredSuccessfulVerifications := Some 1\<rparr>"

definition zero_threshold_options :: DeepThinkOptions where
  "zero_threshold_options = sample_options\<lparr>requiredSuccessfulVerifications := Some 0\<rparr>"

text \<open>
  For the multi-agent engine: two configurations returned by the structured call, the
  options with a cap of one agent, without a cap and with \<^verbatim>\<open>numAgents = 0\<close>, a port
  whose provider throws an
  \<^verbatim>\<open>Error\<close> with an empty message, and a free-text answer that is a fenced empty object.
\<close>

definition sample_configs :: "AgentConfig list" where
  "sample_configs =
     [\<lparr>agentId = ''agent_01'', approach = ''direct'', specificPrompt = ''first''\<rparr>,
      \<lparr>agentId = ''agent_02'', approach = ''indirect'', specificPrompt = ''second''\<rparr>]"

definition uncapped_options :: UltraThinkOptions where
  "uncapped_options =
     \<lparr>problemStatement = ''P'', otherPrompts = [], knowledgeContext = None,
      maxIterations = None, requiredSuccessfulVerifications = None,
      maxErrorsBeforeGiveUp = None, thinkingModel = ''m'', modelStages = None,
      numAgents = None\<rparr>"

definition capped_options :: UltraThinkOptions where
  "capped_options = uncapped_options\<lparr>numAgents := Some 1\<rparr>"

definition zero_cap_options :: UltraThinkOptions where
  "zero_cap_options = uncapped_options\<lparr>numAgents := Some 0\<rparr>"

definition planner_port :: gen_port where
  "planner_port = yes_port\<lparr>generateObject := (\<lambda>n r. Inr sample_configs)\<rparr>"

definition silent_error_port :: gen_port where
  "silent_error_port = yes_port\<lparr>createModelProvider := (\<lambda>n m. Some (JsError []))\<rparr>"

definition fenced_port :: gen_port where
  "fenced_port = yes_port\<lparr>generateText := (\<lambda>n r. Inr ''```json {} ```'')\<rparr>"

text \<open>The first agent's port throws, every other agent's port answers "Yes.".\<close>

definition mixed_agents :: "nat \<Rightarrow> gen_port" where
  "mixed_agents k = (if k = 0 then silent_error_port else yes_port)"

definition sample_runtime :: js_runtime where
  "sample_runtime =
     \<lparr>JSON_parse = (\<lambda>s. if s = ''{}'' then Inr (JObj []) else Inl ''Unexpected token''),
      nullReadMessage = ''Cannot read properties of null''\<rparr>"

section \<open>Steps of a run\<close>

lemma returns_bind:
  "returns m st (\<lambda>x st1. returns (f x) st1 Q) \<Longrightarrow> returns (bind_io m f) st Q"
  by (auto simp: returns_def bind_io_def)

lemma returns_emit:
  "Q () (st\<lparr>events := events st @ [e]\<rparr>) \<Longrightarrow> returns (emit e) st Q"
  by (simp add: returns_def emit_def)

lemma returns_return: "Q x st \<Longrightarrow> returns (return_io x) st Q"
  by (simp add: returns_def return_io_def)

lemma returns_return_iff: "returns (return_io x) st Q \<longleftrightarrow> Q x st"
  by (simp add: returns_def return_io_def)

lemma returns_provider:
  "responsive orc \<Longrightarrow> Q () (st\<lparr>calls := calls st @ [CreateModelProvider m]\<rparr>)
   \<Longrightarrow> returns (await_createModelProvider orc m) st Q"
  by (simp add: returns_def await_createModelProvider_def responsive_def)

lemma returns_generateText:
  assumes "responsive orc"
    and "\<And>t. generateText orc (length (calls st)) r = Inr t
          \<Longrightarrow> Q t (st\<lparr>calls := calls st @ [GenerateText r]\<rparr>)"
  shows "returns (await_generateText orc r) st Q"
proof -
  from assms(1) obtain t where "generateText orc (length (calls st)) r = Inr t"
    unfolding responsive_def by blast
  with assms(2) show ?thesis
    by (simp add: returns_def await_generateText_def)
qed

lemma returns_weaken:
  "returns m st P \<Longrightarrow> (\<And>x st'. P x st' \<Longrightarrow> Q x st') \<Longrightarrow> returns m st Q"
  by (auto simp: returns_def)

lemma advances_refl: "advances st st [] 0 0"
  by (simp add: advances_def)

lemma advances_trans:
  "advances st st1 e1 a1 b1 \<Longrightarrow> advances st1 st2 e2 a2 b2 \<Longrightarrow> advances st st2 (e1 @ e2) (a1 + a2) (b1 + b2)"
  by (simp add: advances_def)

lemma advances_emit:
  "advances st st1 e1 a b \<Longrightarrow> advances st (st1\<lparr>events := events st1 @ [e]\<rparr>) (e1 @ [e]) a b"
  by (simp add: advances_def verification_calls_def correction_calls_def)

lemma verifySolution_responsive:
  assumes "responsive orc"
  shows "returns (verifySolution opts orc p s) st (\<lambda>v st'.
           advances st st' [Ev_progress ''Verifying solution...''] 1 0
           \<and> (\<exists>n vo. generateText orc n (Req_check vo) = Inr (snd v)))"
  unfolding verifySolution_def Let_def
  apply (intro returns_bind returns_emit returns_provider returns_generateText returns_return assms)
  apply (simp add: advances_def verification_calls_def correction_calls_def)
  apply blast
  done

lemma verifySolution_passes:
  assumes "always_passes orc"
  shows "returns (verifySolution opts orc p s) st (\<lambda>v st'.
           advances st st' [Ev_progress ''Verifying solution...''] 1 0 \<and> verdict_passed v)"
proof -
  from assms have r: "responsive orc" by (simp add: always_passes_def)
  show ?thesis
    by (rule returns_weaken [OF verifySolution_responsive [OF r]])
      (use assms in \<open>auto simp: always_passes_def verdict_passed_def\<close>)
qed

lemma verifySolution_fails:
  assumes "always_fails orc"
  shows "returns (verifySolution opts orc p s) st (\<lambda>v st'.
           advances st st' [Ev_progress ''Verifying solution...''] 1 0 \<and> \<not> verdict_passed v)"
proof -
  from assms have r: "responsive orc" by (simp add: always_fails_def)
  show ?thesis
    by (rule returns_weaken [OF verifySolution_responsive [OF r]])
      (use assms in \<open>auto simp: always_fails_def verdict_passed_def\<close>)
qed

lemma initialExploration_responsive:
  assumes "responsive orc"
  shows "returns (initialExploration opts orc p others) st (\<lambda>x st'.
           \<exists>sol v first. x = Some (sol, v) \<and>
             advances st st' [Ev_thinking 0 ''initial-exploration'', Ev_solution first 0,
                 Ev_thinking 0 ''self-improvement'', Ev_solution sol 0,
                 Ev_progress ''Verifying solution...'', Ev_verification (verdict_passed v) 0] 1 0
           \<and> (\<exists>n vo. generateText orc n (Req_check vo) = Inr (snd v)))"
  unfolding initialExploration_def
  apply (intro returns_bind returns_emit returns_provider returns_generateText assms)
  apply (rule returns_weaken [OF verifySolution_responsive [OF assms]])
  apply (intro returns_bind returns_emit returns_return)
  apply (auto simp: advances_def verification_calls_def correction_calls_def)
  done


declare main_loop.simps [simp del]

lemma record_pass_simps [simp]:
  "cur_solution (record_pass orc i lv) = cur_solution lv"
  "cur_verification (record_pass orc i lv) = cur_verification lv"
  "errorCount (record_pass orc i lv) = errorCount lv"
  "correctCount (record_pass orc i lv) = correctCount lv"
  "length (iterations_log (record_pass orc i lv)) = Suc (length (iterations_log lv))"
  "length (verifications_log (record_pass orc i lv)) = Suc (length (verifications_log lv))"
  by (simp_all add: record_pass_def Let_def)

lemma loop_pass_passed_return:
  assumes "verdict_passed (cur_verification lv)"
    and "requiredSuccesses_of opts \<le> Suc (correctCount lv)"
  shows "returns (loop_pass opts orc init i lv) st (\<lambda>x st'.
           advances st st' [Ev_success (cur_solution lv) (i + 1)] 0 0 \<and>
           (\<exists>r. x = Return r \<and> successfulVerifications r = Suc (correctCount lv) \<and>
              totalIterations r = i + 1 \<and> finalSolution r = cur_solution lv \<and>
              length (iterations r) = Suc (length (iterations_log lv)) \<and>
              length (verifications r) = Suc (length (verifications_log lv))))"
  unfolding loop_pass_def passed_branch_def
  using assms
  apply (intro returns_bind)
  apply (simp add: returns_return_iff after_branch_def)
  apply (intro returns_bind returns_emit returns_return)
  apply (simp add: advances_def verification_calls_def correction_calls_def)
  done

lemma loop_pass_passed_continue:
  assumes "always_passes orc"
    and "verdict_passed (cur_verification lv)"
    and "Suc (correctCount lv) < requiredSuccesses_of opts"
  shows "returns (loop_pass opts orc init i lv) st (\<lambda>x st'.
           advances st st' [Ev_progress ''Verifying solution...'', Ev_verification True (i + 1)] 1 0 \<and>
           (\<exists>lv'. x = Continue lv' \<and> verdict_passed (cur_verification lv') \<and>
              correctCount lv' = Suc (correctCount lv) \<and>
              cur_solution lv' = cur_solution lv \<and>
              length (iterations_log lv') = Suc (length (iterations_log lv)) \<and>
              length (verifications_log lv') = Suc (length (verifications_log lv))))"
  unfolding loop_pass_def passed_branch_def
  using assms(2,3)
  apply (intro returns_bind)
  apply (simp add: returns_return_iff after_branch_def)
  apply (intro returns_bind)
  apply (rule returns_weaken [OF verifySolution_passes [OF assms(1)]])
  apply (intro returns_bind returns_emit returns_return)
  apply (simp add: advances_def verification_calls_def correction_calls_def)
  done

lemma main_loop_always_passes:
  assumes "always_passes orc"
  shows "verdict_passed (cur_verification lv) \<Longrightarrow>
         correctCount lv + n + 1 = requiredSuccesses_of opts \<Longrightarrow>
         i + n < maxIterations_of opts \<Longrightarrow>
         returns (main_loop opts orc init i lv) st (\<lambda>x st'.
           (\<exists>evs. advances st st' (evs @ [Ev_success (cur_solution lv) (i + n + 1)]) n 0
              \<and> filter is_failure evs = [] \<and> filter is_success evs = []) \<and>
           (\<exists>r. x = Returned r \<and> successfulVerifications r = requiredSuccesses_of opts \<and>
              totalIterations r = i + n + 1 \<and> finalSolution r = cur_solution lv \<and>
              length (iterations r) = length (iterations_log lv) + n + 1 \<and>
              length (verifications r) = length (verifications_log lv) + n + 1))"
proof (induction n arbitrary: i lv st)
  case 0
  have "returns (loop_pass opts orc init i lv) st (\<lambda>x st'.
           advances st st' [Ev_success (cur_solution lv) (i + 1)] 0 0 \<and>
           (\<exists>r. x = Return r \<and> successfulVerifications r = Suc (correctCount lv) \<and>
              totalIterations r = i + 1 \<and> finalSolution r = cur_solution lv \<and>
              length (iterations r) = Suc (length (iterations_log lv)) \<and>
              length (verifications r) = Suc (length (verifications_log lv))))"
    using 0 by (intro loop_pass_passed_return) simp_all
  then obtain r st' where
    "loop_pass opts orc init i lv st = (Inr (Return r), st')"
    "advances st st' [Ev_success (cur_solution lv) (i + 1)] 0 0"
    "successfulVerifications r = Suc (correctCount lv)"
    "totalIterations r = i + 1" "finalSolution r = cur_solution lv"
    "length (iterations r) = Suc (length (iterations_log lv))"
    "length (verifications r) = Suc (length (verifications_log lv))"
    unfolding returns_def by blast
  with 0 show ?case
    by (subst main_loop.simps) (auto simp: returns_def intro: exI [of _ "[]"])
next
  case (Suc n)
  have "returns (loop_pass opts orc init i lv) st (\<lambda>x st'.
           advances st st' [Ev_progress ''Verifying solution...'', Ev_verification True (i + 1)] 1 0 \<and>
           (\<exists>lv'. x = Continue lv' \<and> verdict_passed (cur_verification lv') \<and>
              correctCount lv' = Suc (correctCount lv) \<and>
              cur_solution lv' = cur_solution lv \<and>
              length (iterations_log lv') = Suc (length (iterations_log lv)) \<and>
              length (verifications_log lv') = Suc (length (verifications_log lv))))"
    using Suc.prems by (intro loop_pass_passed_continue assms) simp_all
  then obtain lv' st1 where step:
    "loop_pass opts orc init i lv st = (Inr (Continue lv'), st1)"
    "advances st st1 [Ev_progress ''Verifying solution...'', Ev_verification True (i + 1)] 1 0"
    "verdict_passed (cur_verification lv')"
    "correctCount lv' = Suc (correctCount lv)"
    "cur_solution lv' = cur_solution lv"
    "length (iterations_log lv') = Suc (length (iterations_log lv))"
    "length (verifications_log lv') = Suc (length (verifications_log lv))"
    unfolding returns_def by blast
  have "returns (main_loop opts orc init (Suc i) lv') st1 (\<lambda>x st'.
           (\<exists>evs. advances st1 st' (evs @ [Ev_success (cur_solution lv') (Suc i + n + 1)]) n 0
              \<and> filter is_failure evs = [] \<and> filter is_success evs = []) \<and>
           (\<exists>r. x = Returned r \<and> successfulVerifications r = requiredSuccesses_of opts \<and>
              totalIterations r = Suc i + n + 1 \<and> finalSolution r = cur_solution lv' \<and>
              length (iterations r) = length (iterations_log lv') + n + 1 \<and>
              length (verifications r) = length (verifications_log lv') + n + 1))"
    using Suc.prems step by (intro Suc.IH) simp_all
  then obtain r st' evs where rest:
    "main_loop opts orc init (Suc i) lv' st1 = (Inr (Returned r), st')"
    "advances st1 st' (evs @ [Ev_success (cur_solution lv') (Suc i + n + 1)]) n 0"
    "filter is_failure evs = []" "filter is_success evs = []"
    "successfulVerifications r = requiredSuccesses_of opts"
    "totalIterations r = Suc i + n + 1" "finalSolution r = cur_solution lv'"
    "length (iterations r) = length (iterations_log lv') + n + 1"
    "length (verifications r) = length (verifications_log lv') + n + 1"
    unfolding returns_def by blast
  have adv: "advances st st'
      (([Ev_progress ''Verifying solution...'', Ev_verification True (i + 1)] @ evs) @
        [Ev_success (cur_solution lv) (i + Suc n + 1)]) (Suc n) 0"
    using advances_trans [OF step(2) rest(2)] step(5) by simp
  have main: "main_loop opts orc init i lv st = (Inr (Returned r), st')"
    using Suc.prems(3) step(1) rest(1) by (subst main_loop.simps) simp
  show ?case
    unfolding returns_def
    apply (intro exI conjI)
           apply (rule main)
          apply (rule adv)
    using rest step by simp_all
qed


lemma initialExploration_passes:
  assumes "always_passes orc"
  shows "returns (initialExploration opts orc p others) st (\<lambda>x st'.
           \<exists>sol v evs. x = Some (sol, v) \<and> verdict_passed v \<and>
             advances st st' evs 1 0 \<and> filter is_failure evs = [] \<and> filter is_success evs = [])"
proof -
  from assms have r: "responsive orc" by (simp add: always_passes_def)
  show ?thesis
    apply (rule returns_weaken [OF initialExploration_responsive [OF r]])
    using assms
    apply (auto simp: always_passes_def verdict_passed_def)
    apply (intro exI conjI, assumption)
     apply simp_all
    done
qed

lemma bind_emit: "bind_io (emit e) f st = f () (st\<lparr>events := events st @ [e]\<rparr>)"
  by (simp add: bind_io_def emit_def)

lemma bind_return: "bind_io (return_io x) f st = f x st"
  by (simp add: bind_io_def return_io_def)

lemma bind_known: "m st = (Inr x, st') \<Longrightarrow> bind_io m f st = f x st'"
  by (simp add: bind_io_def)

lemma run_from_always_passes:
  assumes "always_passes orc"
    and "2 \<le> requiredSuccesses_of opts"
    and "requiredSuccesses_of opts \<le> maxIterations_of opts + 1"
  shows "returns (run_from opts orc) st (\<lambda>r st'.
           successfulVerifications r = requiredSuccesses_of opts \<and>
           totalIterations r = requiredSuccesses_of opts - 1 \<and>
           length (iterations r) = requiredSuccesses_of opts - 1 \<and>
           length (verifications r) = requiredSuccesses_of opts - 1 \<and>
           (\<exists>evs. advances st st'
              (evs @ [Ev_success (finalSolution r) (requiredSuccesses_of opts - 1)])
              (requiredSuccesses_of opts - 1) 0 \<and>
              filter is_failure evs = [] \<and> filter is_success evs = []))"
proof -
  let ?K = "requiredSuccesses_of opts"
  let ?st0 = "st\<lparr>events := events st @ [Ev_init (problemStatement opts)]\<rparr>"
  obtain sol v evs st1 where init:
    "initialExploration opts orc (problemStatement opts) (otherPrompts opts) ?st0
       = (Inr (Some (sol, v)), st1)"
    "verdict_passed v" "advances ?st0 st1 evs 1 0"
    "filter is_failure evs = []" "filter is_success evs = []"
    using initialExploration_passes [OF assms(1), of opts "problemStatement opts"
        "otherPrompts opts" ?st0]
    unfolding returns_def by blast
  let ?lv = "\<lparr>cur_solution = sol, cur_verification = v, iterations_log = [],
              verifications_log = [], errorCount = 0, correctCount = 1\<rparr>"
  have "returns (main_loop opts orc sol 0 ?lv) st1 (\<lambda>x st'.
           (\<exists>evs. advances st1 st' (evs @ [Ev_success (cur_solution ?lv) (0 + (?K - 2) + 1)]) (?K - 2) 0
              \<and> filter is_failure evs = [] \<and> filter is_success evs = []) \<and>
           (\<exists>r. x = Returned r \<and> successfulVerifications r = ?K \<and>
              totalIterations r = 0 + (?K - 2) + 1 \<and> finalSolution r = cur_solution ?lv \<and>
              length (iterations r) = length (iterations_log ?lv) + (?K - 2) + 1 \<and>
              length (verifications r) = length (verifications_log ?lv) + (?K - 2) + 1))"
    using init(2) assms(2,3) by (intro main_loop_always_passes [OF assms(1)]) simp_all
  then obtain r st2 evs2 where loop:
    "main_loop opts orc sol 0 ?lv st1 = (Inr (Returned r), st2)"
    "advances st1 st2 (evs2 @ [Ev_success sol (?K - 1)]) (?K - 2) 0"
    "filter is_failure evs2 = []" "filter is_success evs2 = []"
    "successfulVerifications r = ?K" "totalIterations r = ?K - 1" "finalSolution r = sol"
    "length (iterations r) = ?K - 1" "length (verifications r) = ?K - 1"
    using assms(2) unfolding returns_def by (auto simp: Suc_diff_Suc numeral_2_eq_2)
  have run: "run_from opts orc st = (Inr r, st2)"
    unfolding run_from_def using init(1,2) loop(1)
    by (simp add: bind_emit bind_known return_io_def)
  have adv: "advances st st2 ((Ev_init (problemStatement opts) # evs @ evs2) @
      [Ev_success (finalSolution r) (?K - 1)]) (?K - 1) 0"
    using init(3) loop(2,7) assms(2)
    by (simp add: advances_def verification_calls_def correction_calls_def)
  have "\<exists>es. advances st st2 (es @ [Ev_success (finalSolution r) (?K - 1)]) (?K - 1) 0 \<and>
              filter is_failure es = [] \<and> filter is_success es = []"
    by (rule exI [of _ "Ev_init (problemStatement opts) # evs @ evs2"])
      (use adv init(4,5) loop(3,4) in simp)
  with run loop(5,6,8,9) show ?thesis
    unfolding returns_def by blast
qed


lemma loop_pass_failed_break:
  assumes "\<not> verdict_passed (cur_verification lv)"
    and "maxErrors_of opts \<le> Suc (errorCount lv)"
  shows "returns (loop_pass opts orc init i lv) st (\<lambda>x st'.
           advances st st' [Ev_failure ''Too many errors''] 0 0 \<and>
           (\<exists>lv'. x = Break lv' \<and> correctCount lv' = 0 \<and>
              length (iterations_log lv') = Suc (length (iterations_log lv)) \<and>
              length (verifications_log lv') = Suc (length (verifications_log lv))))"
  unfolding loop_pass_def not_passed_branch_def Let_def
  using assms
  apply (intro returns_bind)
  apply simp
  apply (intro returns_bind returns_emit)
  apply (simp add: returns_return_iff advances_def verification_calls_def correction_calls_def)
  done

lemma loop_pass_failed_continue:
  assumes "always_fails orc"
    and "\<not> verdict_passed (cur_verification lv)"
    and "Suc (errorCount lv) < maxErrors_of opts"
    and "1 \<le> requiredSuccesses_of opts"
  shows "returns (loop_pass opts orc init i lv) st (\<lambda>x st'.
           (\<exists>evs. advances st st' evs 1 1 \<and> filter is_failure evs = [] \<and> filter is_success evs = []) \<and>
           (\<exists>lv'. x = Continue lv' \<and> \<not> verdict_passed (cur_verification lv') \<and>
              errorCount lv' = Suc (errorCount lv) \<and>
              length (iterations_log lv') = Suc (length (iterations_log lv)) \<and>
              length (verifications_log lv') = Suc (length (verifications_log lv))))"
proof -
  from assms(1) have r: "responsive orc" by (simp add: always_fails_def)
  show ?thesis
    unfolding loop_pass_def not_passed_branch_def Let_def
    using assms(2,3,4)
    apply (intro returns_bind)
    apply simp
    apply (intro returns_bind returns_emit returns_provider returns_generateText r)
    apply (simp add: returns_return_iff after_branch_def)
    apply (intro returns_bind)
    apply (rule returns_weaken [OF verifySolution_fails [OF assms(1)]])
    apply (intro returns_bind returns_emit returns_return)
    apply (simp add: advances_def verification_calls_def correction_calls_def)
    done
qed

lemma main_loop_always_fails:
  assumes "always_fails orc" and "1 \<le> requiredSuccesses_of opts"
  shows "\<not> verdict_passed (cur_verification lv) \<Longrightarrow>
         n = maxErrors_of opts - Suc (errorCount lv) \<Longrightarrow>
         i + n < maxIterations_of opts \<Longrightarrow>
         returns (main_loop opts orc init i lv) st (\<lambda>x st'.
           (\<exists>evs. advances st st' (evs @ [Ev_failure ''Too many errors'']) n n
              \<and> filter is_failure evs = [] \<and> filter is_success evs = []) \<and>
           (\<exists>lv'. x = Fell_through lv' \<and> correctCount lv' = 0 \<and>
              length (iterations_log lv') = length (iterations_log lv) + n + 1 \<and>
              length (verifications_log lv') = length (verifications_log lv) + n + 1))"
proof (induction n arbitrary: i lv st)
  case 0
  have "returns (loop_pass opts orc init i lv) st (\<lambda>x st'.
           advances st st' [Ev_failure ''Too many errors''] 0 0 \<and>
           (\<exists>lv'. x = Break lv' \<and> correctCount lv' = 0 \<and>
              length (iterations_log lv') = Suc (length (iterations_log lv)) \<and>
              length (verifications_log lv') = Suc (length (verifications_log lv))))"
    using 0 by (intro loop_pass_failed_break) simp_all
  then obtain lv' st' where
    "loop_pass opts orc init i lv st = (Inr (Break lv'), st')"
    "advances st st' [Ev_failure ''Too many errors''] 0 0"
    "correctCount lv' = 0"
    "length (iterations_log lv') = Suc (length (iterations_log lv))"
    "length (verifications_log lv') = Suc (length (verifications_log lv))"
    unfolding returns_def by blast
  with 0 show ?case
    by (subst main_loop.simps) (auto simp: returns_def intro: exI [of _ "[]"])
next
  case (Suc n)
  have "returns (loop_pass opts orc init i lv) st (\<lambda>x st'.
           (\<exists>evs. advances st st' evs 1 1 \<and> filter is_failure evs = [] \<and> filter is_success evs = []) \<and>
           (\<exists>lv'. x = Continue lv' \<and> \<not> verdict_passed (cur_verification lv') \<and>
              errorCount lv' = Suc (errorCount lv) \<and>
              length (iterations_log lv') = Suc (length (iterations_log lv)) \<and>
              length (verifications_log lv') = Suc (length (verifications_log lv))))"
    using Suc.prems by (intro loop_pass_failed_continue assms) simp_all
  then obtain lv' st1 evs1 where step:
    "loop_pass opts orc init i lv st = (Inr (Continue lv'), st1)"
    "advances st st1 evs1 1 1" "filter is_failure evs1 = []" "filter is_success evs1 = []"
    "\<not> verdict_passed (cur_verification lv')"
    "errorCount lv' = Suc (errorCount lv)"
    "length (iterations_log lv') = Suc (length (iterations_log lv))"
    "length (verifications_log lv') = Suc (length (verifications_log lv))"
    unfolding returns_def by blast
  have "returns (main_loop opts orc init (Suc i) lv') st1 (\<lambda>x st'.
           (\<exists>evs. advances st1 st' (evs @ [Ev_failure ''Too many errors'']) n n
              \<and> filter is_failure evs = [] \<and> filter is_success evs = []) \<and>
           (\<exists>lv''. x = Fell_through lv'' \<and> correctCount lv'' = 0 \<and>
              length (iterations_log lv'') = length (iterations_log lv') + n + 1 \<and>
              length (verifications_log lv'') = length (verifications_log lv') + n + 1))"
    using Suc.prems step by (intro Suc.IH) simp_all
  then obtain lv'' st' evs where rest:
    "main_loop opts orc init (Suc i) lv' st1 = (Inr (Fell_through lv''), st')"
    "advances st1 st' (evs @ [Ev_failure ''Too many errors'']) n n"
    "filter is_failure evs = []" "filter is_success evs = []"
    "correctCount lv'' = 0"
    "length (iterations_log lv'') = length (iterations_log lv') + n + 1"
    "length (verifications_log lv'') = length (verifications_log lv') + n + 1"
    unfolding returns_def by blast
  have adv: "advances st st' ((evs1 @ evs) @ [Ev_failure ''Too many errors'']) (Suc n) (Suc n)"
    using advances_trans [OF step(2) rest(2)] by simp
  have "\<exists>es. advances st st' (es @ [Ev_failure ''Too many errors'']) (Suc n) (Suc n) \<and>
          filter is_failure es = [] \<and> filter is_success es = []"
    by (rule exI [of _ "evs1 @ evs"]) (use adv step(3,4) rest(3,4) in simp)
  moreover have "main_loop opts orc init i lv st = (Inr (Fell_through lv''), st')"
    using Suc.prems(3) step(1) rest(1) by (subst main_loop.simps) simp
  ultimately show ?case
    unfolding returns_def using rest(5,6,7) step(7,8) by auto
qed


lemma initialExploration_fails:
  assumes "always_fails orc"
  shows "returns (initialExploration opts orc p others) st (\<lambda>x st'.
           \<exists>sol v evs. x = Some (sol, v) \<and> \<not> verdict_passed v \<and>
             advances st st' evs 1 0 \<and> filter is_failure evs = [] \<and> filter is_success evs = [])"
proof -
  from assms have r: "responsive orc" by (simp add: always_fails_def)
  show ?thesis
    apply (rule returns_weaken [OF initialExploration_responsive [OF r]])
    using assms
    apply (auto simp: always_fails_def verdict_passed_def)
    apply (intro exI conjI, assumption)
     apply simp_all
    done
qed

lemma run_from_always_fails:
  assumes "always_fails orc"
    and "1 \<le> requiredSuccesses_of opts"
    and "maxErrors_of opts \<le> maxIterations_of opts"
    and "0 < maxIterations_of opts"
  shows "returns (run_from opts orc) st (\<lambda>r st'.
           successfulVerifications r = 0 \<and>
           totalIterations r = maxIterations_of opts \<and>
           length (iterations r) = Suc (maxErrors_of opts - 1) \<and>
           length (verifications r) = Suc (maxErrors_of opts - 1) \<and>
           (\<exists>evs. advances st st'
              (evs @ [Ev_failure ''Too many errors'', Ev_failure ''Max iterations reached''])
              (Suc (maxErrors_of opts - 1)) (maxErrors_of opts - 1) \<and>
              filter is_failure evs = [] \<and> filter is_success evs = []))"
proof -
  let ?n = "maxErrors_of opts - 1"
  let ?st0 = "st\<lparr>events := events st @ [Ev_init (problemStatement opts)]\<rparr>"
  obtain sol v evs st1 where init:
    "initialExploration opts orc (problemStatement opts) (otherPrompts opts) ?st0
       = (Inr (Some (sol, v)), st1)"
    "\<not> verdict_passed v" "advances ?st0 st1 evs 1 0"
    "filter is_failure evs = []" "filter is_success evs = []"
    using initialExploration_fails [OF assms(1), of opts "problemStatement opts"
        "otherPrompts opts" ?st0]
    unfolding returns_def by blast
  let ?lv = "\<lparr>cur_solution = sol, cur_verification = v, iterations_log = [],
              verifications_log = [], errorCount = 0, correctCount = 0\<rparr>"
  have "returns (main_loop opts orc sol 0 ?lv) st1 (\<lambda>x st'.
           (\<exists>evs. advances st1 st' (evs @ [Ev_failure ''Too many errors'']) ?n ?n
              \<and> filter is_failure evs = [] \<and> filter is_success evs = []) \<and>
           (\<exists>lv'. x = Fell_through lv' \<and> correctCount lv' = 0 \<and>
              length (iterations_log lv') = length (iterations_log ?lv) + ?n + 1 \<and>
              length (verifications_log lv') = length (verifications_log ?lv) + ?n + 1))"
    using init(2) assms(3,4) by (intro main_loop_always_fails [OF assms(1,2)]) simp_all
  then obtain lv' st2 evs2 where loop:
    "main_loop opts orc sol 0 ?lv st1 = (Inr (Fell_through lv'), st2)"
    "advances st1 st2 (evs2 @ [Ev_failure ''Too many errors'']) ?n ?n"
    "filter is_failure evs2 = []" "filter is_success evs2 = []"
    "correctCount lv' = 0"
    "length (iterations_log lv') = Suc ?n" "length (verifications_log lv') = Suc ?n"
    unfolding returns_def by auto
  let ?r = "\<lparr>initialThought = sol, improvements = [],
                   iterations = iterations_log lv', verifications = verifications_log lv',
                   finalSolution = cur_solution lv',
                   totalIterations = maxIterations_of opts,
                   successfulVerifications = correctCount lv'\<rparr>"
  let ?st3 = "st2\<lparr>events := events st2 @ [Ev_failure ''Max iterations reached'']\<rparr>"
  have run: "run_from opts orc st = (Inr ?r, ?st3)"
    unfolding run_from_def using init(1,2) loop(1)
    by (simp add: bind_emit bind_known return_io_def)
  have "\<exists>es. advances st ?st3
      (es @ [Ev_failure ''Too many errors'', Ev_failure ''Max iterations reached''])
      (Suc ?n) ?n \<and> filter is_failure es = [] \<and> filter is_success es = []"
    by (rule exI [of _ "Ev_init (problemStatement opts) # evs @ evs2"])
      (use init(3,4,5) loop(2,3,4) in
        \<open>simp add: advances_def verification_calls_def correction_calls_def\<close>)
  with run loop(5,6,7) show ?thesis
    unfolding returns_def by auto
qed

lemma main_loop_no_pass:
  "maxIterations_of opts \<le> i \<Longrightarrow> main_loop opts orc init i lv st = (Inr (Fell_through lv), st)"
  by (subst main_loop.simps) simp

lemma run_from_no_iterations:
  assumes "always_fails orc" and "maxIterations_of opts = 0"
  shows "returns (run_from opts orc) st (\<lambda>r st'.
           successfulVerifications r = 0 \<and>
           totalIterations r = 0 \<and> iterations r = [] \<and> verifications r = [] \<and>
           (\<exists>evs. advances st st' (evs @ [Ev_failure ''Max iterations reached'']) 1 0 \<and>
              filter is_failure evs = [] \<and> filter is_success evs = []))"
proof -
  let ?st0 = "st\<lparr>events := events st @ [Ev_init (problemStatement opts)]\<rparr>"
  obtain sol v evs st1 where init:
    "initialExploration opts orc (problemStatement opts) (otherPrompts opts) ?st0
       = (Inr (Some (sol, v)), st1)"
    "\<not> verdict_passed v" "advances ?st0 st1 evs 1 0"
    "filter is_failure evs = []" "filter is_success evs = []"
    using initialExploration_fails [OF assms(1), of opts "problemStatement opts"
        "otherPrompts opts" ?st0]
    unfolding returns_def by blast
  let ?lv = "\<lparr>cur_solution = sol, cur_verification = v, iterations_log = [],
              verifications_log = [], errorCount = 0, correctCount = 0\<rparr>"
  let ?r = "\<lparr>initialThought = sol, improvements = [],
                   iterations = [], verifications = [],
                   finalSolution = sol,
                   totalIterations = maxIterations_of opts,
                   successfulVerifications = 0\<rparr>"
  let ?st3 = "st1\<lparr>events := events st1 @ [Ev_failure ''Max iterations reached'']\<rparr>"
  have run: "run_from opts orc st = (Inr ?r, ?st3)"
    unfolding run_from_def using init(1,2) assms(2)
    by (simp add: bind_emit bind_known return_io_def main_loop_no_pass)
  have "\<exists>es. advances st ?st3 (es @ [Ev_failure ''Max iterations reached'']) 1 0 \<and>
      filter is_failure es = [] \<and> filter is_success es = []"
    by (rule exI [of _ "Ev_init (problemStatement opts) # evs"])
      (use init(3,4,5) in
        \<open>simp add: advances_def verification_calls_def correction_calls_def\<close>)
  with run assms(2) show ?thesis
    unfolding returns_def by auto
qed



lemma ensures_bind:
  "ensures m st E (\<lambda>x st1. ensures (f x) st1 E Q) \<Longrightarrow> ensures (bind_io m f) st E Q"
  by (auto simp: ensures_def bind_io_def split: prod.splits sum.splits)

lemma ensures_emit: "Q () (st\<lparr>events := events st @ [e]\<rparr>) \<Longrightarrow> ensures (emit e) st E Q"
  by (simp add: ensures_def emit_def)

lemma ensures_return: "Q x st \<Longrightarrow> ensures (return_io x) st E Q"
  by (simp add: ensures_def return_io_def)

lemma ensures_throw: "E st \<Longrightarrow> ensures (throw_io e) st E Q"
  by (simp add: ensures_def throw_io_def)

lemma ensures_provider:
  "E (st\<lparr>calls := calls st @ [CreateModelProvider m]\<rparr>) \<Longrightarrow>
   Q () (st\<lparr>calls := calls st @ [CreateModelProvider m]\<rparr>) \<Longrightarrow>
   ensures (await_createModelProvider orc m) st E Q"
  by (simp add: ensures_def await_createModelProvider_def split: option.split)

lemma ensures_generateText:
  "E (st\<lparr>calls := calls st @ [GenerateText r]\<rparr>) \<Longrightarrow>
   (\<And>t. Q t (st\<lparr>calls := calls st @ [GenerateText r]\<rparr>)) \<Longrightarrow>
   ensures (await_generateText orc r) st E Q"
  by (simp add: ensures_def await_generateText_def split: sum.split)

lemma ensures_weaken:
  "ensures m st E' Q' \<Longrightarrow> (\<And>st'. E' st' \<Longrightarrow> E st') \<Longrightarrow> (\<And>x st'. Q' x st' \<Longrightarrow> Q x st')
   \<Longrightarrow> ensures m st E Q"
  by (auto simp: ensures_def split: prod.splits sum.splits)


lemma verifySolution_quiet:
  "ensures (verifySolution opts orc p s) st (quiet st) (\<lambda>v. quiet st)"
  unfolding verifySolution_def Let_def
  by (intro ensures_bind ensures_emit ensures_provider ensures_generateText ensures_return)
    (simp_all add: quiet_def failure_events_def success_events_def)

lemma initialExploration_quiet:
  "ensures (initialExploration opts orc p others) st (quiet st) (\<lambda>x st'. quiet st st' \<and> x \<noteq> None)"
  unfolding initialExploration_def
  apply (intro ensures_bind ensures_emit ensures_provider ensures_generateText)
        apply (simp_all add: quiet_def failure_events_def success_events_def)
  apply (rule ensures_weaken [OF verifySolution_quiet])
   apply (simp add: quiet_def failure_events_def success_events_def)
  apply (intro ensures_bind ensures_emit ensures_return)
  apply (simp add: quiet_def failure_events_def success_events_def)
  done

text \<open>What one pass does to the logs and to the failure events, whatever the port answers.\<close>

lemma after_branch_effect:
  "ensures (after_branch opts orc init i lv3) st (quiet st) (\<lambda>x st'.
     case x of
       Continue lv' \<Rightarrow> quiet st st' \<and>
         iterations_log lv' = iterations_log lv3 \<and>
         verifications_log lv' = verifications_log lv3
     | Break lv' \<Rightarrow> False
     | Return r \<Rightarrow> failure_events st' = failure_events st \<and>
         totalIterations r = Suc i \<and>
         iterations r = iterations_log lv3 \<and>
         verifications r = verifications_log lv3)"
proof (cases "requiredSuccesses_of opts \<le> correctCount lv3")
  case True
  then show ?thesis
    unfolding after_branch_def
    apply simp
    apply (intro ensures_bind ensures_emit ensures_return)
    apply (simp add: failure_events_def)
    done
next
  case False
  then show ?thesis
    unfolding after_branch_def
    apply simp
    apply (intro ensures_bind)
    apply (rule ensures_weaken [OF verifySolution_quiet])
     apply simp
    apply (intro ensures_bind ensures_emit ensures_return)
    apply (simp add: quiet_def failure_events_def success_events_def)
    done
qed

lemma not_passed_branch_effect:
  "ensures (not_passed_branch opts orc i lv1) st (quiet st) (\<lambda>x st'.
     case x of
       Continue lv' \<Rightarrow> quiet st st' \<and>
         iterations_log lv' = iterations_log lv1 \<and>
         verifications_log lv' = verifications_log lv1
     | Break lv' \<Rightarrow>
         failure_events st' = failure_events st @ [Ev_failure ''Too many errors''] \<and>
         iterations_log lv' = iterations_log lv1 \<and>
         verifications_log lv' = verifications_log lv1
     | Return r \<Rightarrow> False)"
proof (cases "maxErrors_of opts \<le> Suc (errorCount lv1)")
  case True
  then show ?thesis
    unfolding not_passed_branch_def Let_def
    apply simp
    apply (intro ensures_bind ensures_emit ensures_return)
    apply (simp add: failure_events_def)
    done
next
  case False
  then show ?thesis
    unfolding not_passed_branch_def Let_def
    apply simp
    apply (intro ensures_bind ensures_emit ensures_provider ensures_generateText ensures_return)
      apply (simp_all add: quiet_def failure_events_def success_events_def)
    done
qed

lemma loop_pass_effect:
  "ensures (loop_pass opts orc init i lv) st (quiet st) (\<lambda>x st'.
     case x of
       Continue lv' \<Rightarrow> quiet st st' \<and>
         iterations_log lv' = iterations_log (record_pass orc i lv) \<and>
         verifications_log lv' = verifications_log (record_pass orc i lv)
     | Break lv' \<Rightarrow>
         failure_events st' = failure_events st @ [Ev_failure ''Too many errors''] \<and>
         iterations_log lv' = iterations_log (record_pass orc i lv) \<and>
         verifications_log lv' = verifications_log (record_pass orc i lv)
     | Return r \<Rightarrow> failure_events st' = failure_events st \<and>
         totalIterations r = Suc i \<and>
         iterations r = iterations_log (record_pass orc i lv) \<and>
         verifications r = verifications_log (record_pass orc i lv))"
proof (cases "verdict_passed (cur_verification lv)")
  case True
  then show ?thesis
    unfolding loop_pass_def passed_branch_def
    apply simp
    apply (intro ensures_bind ensures_return)
    apply simp
    apply (rule ensures_weaken [OF after_branch_effect])
     apply simp
    apply (simp split: loop_exit.splits)
    done
next
  case False
  then show ?thesis
    unfolding loop_pass_def
    apply simp
    apply (intro ensures_bind)
    apply (rule ensures_weaken [OF not_passed_branch_effect])
     apply simp
    subgoal for x st1
      apply (cases x)
        apply simp
        apply (rule ensures_weaken [OF after_branch_effect])
         apply (simp add: quiet_def)
        apply (simp add: quiet_def split: loop_exit.splits)
       apply (simp add: ensures_def return_io_def)
      apply simp
      done
    done
qed



lemma logs_ok_length: "logs_ok i its vers \<Longrightarrow> length its = i \<and> length vers = i"
  unfolding logs_ok_def by (metis length_map length_upt diff_zero)

lemma record_pass_logs_ok:
  "logs_ok i (iterations_log lv) (verifications_log lv) \<Longrightarrow>
   logs_ok (Suc i) (iterations_log (record_pass orc i lv)) (verifications_log (record_pass orc i lv))"
  by (auto simp: logs_ok_def record_pass_def Let_def verdict_passed_def)

lemma main_loop_effect:
  "n = maxIterations_of opts - i \<Longrightarrow> i \<le> maxIterations_of opts \<Longrightarrow>
   logs_ok i (iterations_log lv) (verifications_log lv) \<Longrightarrow>
   main_loop opts orc init i lv st = (Inr x, st') \<Longrightarrow>
   (case x of
      Returned r \<Rightarrow> failure_events st' = failure_events st \<and>
        logs_ok (totalIterations r) (iterations r) (verifications r) \<and>
        i < totalIterations r \<and> totalIterations r \<le> maxIterations_of opts
    | Fell_through lv' \<Rightarrow>
        (\<exists>j. logs_ok j (iterations_log lv') (verifications_log lv') \<and>
           j \<le> maxIterations_of opts \<and>
           (failure_events st' = failure_events st \<and> j = maxIterations_of opts \<or>
            failure_events st' = failure_events st @ [Ev_failure ''Too many errors''] \<and> i < j)))"
proof (induction n arbitrary: i lv st)
  case 0
  then have "main_loop opts orc init i lv st = (Inr (Fell_through lv), st)"
    by (subst main_loop.simps) simp
  with 0 show ?case by auto
next
  case (Suc n)
  then have lt: "i < maxIterations_of opts" by simp
  obtain out st1 where lp: "loop_pass opts orc init i lv st = (out, st1)"
    by (cases "loop_pass opts orc init i lv st")
  note eff = loop_pass_effect [of opts orc init i lv st, unfolded ensures_def lp, simplified]
  note ok = record_pass_logs_ok [OF Suc.prems(3), of orc]
  show ?case
  proof (cases out)
    case (Inl e)
    with Suc.prems(4) lt lp show ?thesis
      by (subst (asm) main_loop.simps) simp
  next
    case (Inr y)
    show ?thesis
    proof (cases y)
      case (Continue lv1)
      with Inr lp lt Suc.prems(4)
      have rec: "main_loop opts orc init (Suc i) lv1 st1 = (Inr x, st')"
        by (subst (asm) main_loop.simps) simp
      from eff Inr Continue have q: "failure_events st1 = failure_events st"
        and l: "logs_ok (Suc i) (iterations_log lv1) (verifications_log lv1)"
        using ok by (simp_all add: quiet_def)
      have "n = maxIterations_of opts - Suc i" using Suc.prems(1) by simp
      from Suc.IH [OF this _ l rec] lt q show ?thesis
        by (auto split: loop_end.splits)
    next
      case (Break lv1)
      with Inr lp lt Suc.prems(4)
      have "x = Fell_through lv1" "st' = st1"
        by (subst (asm) main_loop.simps, simp)+
      with eff Inr Break ok lt show ?thesis
        by (auto intro!: exI [of _ "Suc i"])
    next
      case (Return r)
      with Inr lp lt Suc.prems(4)
      have "x = Returned r" "st' = st1"
        by (subst (asm) main_loop.simps, simp)+
      with eff Inr Return ok lt show ?thesis
        by auto
    qed
  qed
qed

lemma bind_throws: "m st = (Inl e, st') \<Longrightarrow> bind_io m f st = (Inl e, st')"
  by (simp add: bind_io_def)

lemma run_from_effect:
  assumes "run_from opts orc st = (Inr res, st')"
  shows "logs_ok (length (iterations res)) (iterations res) (verifications res) \<and>
         length (iterations res) \<le> maxIterations_of opts \<and>
         (failure_events st' = failure_events st \<and>
            totalIterations res = length (iterations res) \<and> iterations res \<noteq> [] \<or>
          failure_events st' = failure_events st @ [Ev_failure ''Max iterations reached''] \<and>
            totalIterations res = maxIterations_of opts \<and>
            length (iterations res) = maxIterations_of opts \<or>
          failure_events st' =
            failure_events st @ [Ev_failure ''Too many errors'', Ev_failure ''Max iterations reached''] \<and>
            totalIterations res = maxIterations_of opts \<and> iterations res \<noteq> [])"
proof -
  let ?st0 = "st\<lparr>events := events st @ [Ev_init (problemStatement opts)]\<rparr>"
  have f0: "failure_events ?st0 = failure_events st"
    by (simp add: failure_events_def)
  obtain out1 st1 where ie:
    "initialExploration opts orc (problemStatement opts) (otherPrompts opts) ?st0 = (out1, st1)"
    by (cases "initialExploration opts orc (problemStatement opts) (otherPrompts opts) ?st0")
  note q = initialExploration_quiet [of opts orc "problemStatement opts" "otherPrompts opts" ?st0,
      unfolded ensures_def ie, simplified]
  have run1: "run_from opts orc st =
      bind_io (initialExploration opts orc (problemStatement opts) (otherPrompts opts))
       (\<lambda>initial. case initial of
           None \<Rightarrow> throw_io (JsError ''Failed in initial exploration'')
         | Some (initialSolution, initialVerification) \<Rightarrow>
             bind_io
               (main_loop opts orc initialSolution 0
                 \<lparr>cur_solution = initialSolution, cur_verification = initialVerification,
                  iterations_log = [], verifications_log = [], errorCount = 0,
                  correctCount = (if verdict_passed initialVerification then 1 else 0)\<rparr>)
               (\<lambda>ended. case ended of
                  Returned r \<Rightarrow> return_io r
                | Fell_through lv \<Rightarrow>
                    bind_io (emit (Ev_failure ''Max iterations reached'')) (\<lambda>_.
                    return_io
                      \<lparr>initialThought = initialSolution, improvements = [],
                       iterations = iterations_log lv, verifications = verifications_log lv,
                       finalSolution = cur_solution lv,
                       totalIterations = maxIterations_of opts,
                       successfulVerifications = correctCount lv\<rparr>))) ?st0"
    unfolding run_from_def by (simp add: bind_emit)
  obtain sol v where out1: "out1 = Inr (Some (sol, v))"
  proof (cases out1)
    case (Inl e)
    with assms ie show ?thesis
      unfolding run1 by (simp add: bind_throws)
  next
    case (Inr y)
    with q obtain sol v where "y = Some (sol, v)" by auto
    with Inr that show ?thesis by simp
  qed
  let ?lv = "\<lparr>cur_solution = sol, cur_verification = v, iterations_log = [],
              verifications_log = [], errorCount = 0,
              correctCount = (if verdict_passed v then 1 else 0)\<rparr>"
  obtain out2 st2 where ml: "main_loop opts orc sol 0 ?lv st1 = (out2, st2)"
    by (cases "main_loop opts orc sol 0 ?lv st1")
  have run2: "run_from opts orc st =
      bind_io (main_loop opts orc sol 0 ?lv)
               (\<lambda>ended. case ended of
                  Returned r \<Rightarrow> return_io r
                | Fell_through lv \<Rightarrow>
                    bind_io (emit (Ev_failure ''Max iterations reached'')) (\<lambda>_.
                    return_io
                      \<lparr>initialThought = sol, improvements = [],
                       iterations = iterations_log lv, verifications = verifications_log lv,
                       finalSolution = cur_solution lv,
                       totalIterations = maxIterations_of opts,
                       successfulVerifications = correctCount lv\<rparr>)) st1"
    unfolding run1 using ie out1 by (simp add: bind_known)
  obtain x where out2: "out2 = Inr x"
  proof (cases out2)
    case (Inl e)
    with assms ml show ?thesis
      unfolding run2 by (simp add: bind_throws)
  next
    case (Inr y)
    with that show ?thesis by simp
  qed
  have l0: "logs_ok 0 (iterations_log ?lv) (verifications_log ?lv)"
    by (simp add: logs_ok_def)
  note eff = main_loop_effect [OF refl _ l0 ml [unfolded out2], simplified]
  from q out1 f0 have f1: "failure_events st1 = failure_events st"
    by (simp add: quiet_def)
  show ?thesis
  proof (cases x)
    case (Returned r)
    with assms ie out1 ml out2 have "res = r" "st' = st2"
      unfolding run2 by (simp_all add: bind_known return_io_def)
    with eff Returned f1 show ?thesis
      using logs_ok_length by fastforce
  next
    case (Fell_through lv')
    with assms ie out1 ml out2
    have res: "iterations res = iterations_log lv'" "verifications res = verifications_log lv'"
      "totalIterations res = maxIterations_of opts"
      and st': "st' = st2\<lparr>events := events st2 @ [Ev_failure ''Max iterations reached'']\<rparr>"
      unfolding run2 by (auto simp: bind_known bind_emit return_io_def)
    from st' have f': "failure_events st' = failure_events st2 @ [Ev_failure ''Max iterations reached'']"
      by (simp add: failure_events_def)
    from eff Fell_through obtain j where j:
      "logs_ok j (iterations_log lv') (verifications_log lv')" "j \<le> maxIterations_of opts"
      "failure_events st2 = failure_events st1 \<and> j = maxIterations_of opts \<or>
       failure_events st2 = failure_events st1 @ [Ev_failure ''Too many errors''] \<and> 0 < j"
      by auto
    from logs_ok_length [OF j(1)] have len: "length (iterations_log lv') = j" by simp
    with j res f' f1 show ?thesis by auto
  qed
qed

lemma one_pass_limits:
  "maxIterations_of one_pass_options = 30"
  "requiredSuccesses_of one_pass_options = 1"
  by (simp_all add: one_pass_options_def sample_options_def maxIterations_of_def
      requiredSuccesses_of_def)

lemma yes_port_passes: "always_passes yes_port"
  unfolding always_passes_def responsive_def yes_port_def
  by (simp, code_simp)

lemma no_port_fails: "always_fails no_port"
  unfolding always_fails_def responsive_def no_port_def
  by (simp, code_simp)

lemma sample_limits:
  "maxIterations_of sample_options = 30"
  "requiredSuccesses_of sample_options = 3"
  "maxErrors_of sample_options = 10"
  by (simp_all add: sample_options_def maxIterations_of_def requiredSuccesses_of_def maxErrors_of_def)

lemma main_loop_passes_at_once:
  assumes "verdict_passed (cur_verification lv)"
    and "requiredSuccesses_of opts \<le> Suc (correctCount lv)"
    and "i < maxIterations_of opts"
  shows "returns (main_loop opts orc init i lv) st (\<lambda>x st'.
           advances st st' [Ev_success (cur_solution lv) (i + 1)] 0 0 \<and>
           (\<exists>r. x = Returned r \<and> successfulVerifications r = Suc (correctCount lv) \<and>
              totalIterations r = i + 1 \<and> finalSolution r = cur_solution lv))"
proof -
  from loop_pass_passed_return [OF assms(1,2), of orc init i st]
  obtain r st' where
    "loop_pass opts orc init i lv st = (Inr (Return r), st')"
    "advances st st' [Ev_success (cur_solution lv) (i + 1)] 0 0"
    "successfulVerifications r = Suc (correctCount lv)"
    "totalIterations r = i + 1" "finalSolution r = cur_solution lv"
    unfolding returns_def by blast
  with assms(3) show ?thesis
    unfolding returns_def by (subst main_loop.simps) simp
qed

lemma run_from_passes_at_once:
  assumes "always_passes orc"
    and "requiredSuccesses_of opts \<le> 2"
    and "0 < maxIterations_of opts"
  shows "returns (run_from opts orc) st (\<lambda>r st'.
           successfulVerifications r = 2 \<and> totalIterations r = 1 \<and>
           verification_calls st' = Suc (verification_calls st))"
proof -
  let ?st0 = "st\<lparr>events := events st @ [Ev_init (problemStatement opts)]\<rparr>"
  obtain sol v evs st1 where init:
    "initialExploration opts orc (problemStatement opts) (otherPrompts opts) ?st0
       = (Inr (Some (sol, v)), st1)"
    "verdict_passed v" "advances ?st0 st1 evs 1 0"
    using initialExploration_passes [OF assms(1), of opts "problemStatement opts"
        "otherPrompts opts" ?st0]
    unfolding returns_def by blast
  let ?lv = "\<lparr>cur_solution = sol, cur_verification = v, iterations_log = [],
              verifications_log = [], errorCount = 0, correctCount = 1\<rparr>"
  have "returns (main_loop opts orc sol 0 ?lv) st1 (\<lambda>x st'.
           advances st1 st' [Ev_success (cur_solution ?lv) (0 + 1)] 0 0 \<and>
           (\<exists>r. x = Returned r \<and> successfulVerifications r = Suc (correctCount ?lv) \<and>
              totalIterations r = 0 + 1 \<and> finalSolution r = cur_solution ?lv))"
    using init(2) assms(2,3) by (intro main_loop_passes_at_once) simp_all
  then obtain r st2 where loop:
    "main_loop opts orc sol 0 ?lv st1 = (Inr (Returned r), st2)"
    "advances st1 st2 [Ev_success sol 1] 0 0"
    "successfulVerifications r = 2" "totalIterations r = 1"
    unfolding returns_def by auto
  have run: "run_from opts orc st = (Inr r, st2)"
    unfolding run_from_def using init(1,2) loop(1)
    by (simp add: bind_emit bind_known return_io_def)
  have "verification_calls st2 = Suc (verification_calls st)"
    using init(3) loop(2) by (simp add: advances_def verification_calls_def)
  with run loop(3,4) show ?thesis
    unfolding returns_def by simp
qed

text \<open>
  With a success threshold of zero, the test after the first correction already holds.
\<close>

lemma zero_threshold_limits:
  "requiredSuccesses_of zero_threshold_options = 0"
  "maxErrors_of zero_threshold_options = 10"
  "maxIterations_of zero_threshold_options = 30"
  by (simp_all add: zero_threshold_options_def sample_options_def requiredSuccesses_of_def
      maxErrors_of_def maxIterations_of_def)

lemma loop_pass_failed_return:
  assumes "responsive orc"
    and "\<not> verdict_passed (cur_verification lv)"
    and "Suc (errorCount lv) < maxErrors_of opts"
    and "requiredSuccesses_of opts = 0"
  shows "returns (loop_pass opts orc init i lv) st (\<lambda>x st'.
           \<exists>t r. advances st st'
               [Ev_correction i, Ev_solution t (i + 1), Ev_success t (i + 1)] 0 1 \<and>
             x = Return r \<and> successfulVerifications r = 0 \<and> totalIterations r = i + 1 \<and>
             finalSolution r = t \<and>
             length (iterations r) = Suc (length (iterations_log lv)))"
  unfolding loop_pass_def not_passed_branch_def Let_def
  using assms(2,3,4)
  apply (intro returns_bind)
  apply simp
  apply (intro returns_bind returns_emit returns_provider returns_generateText assms(1))
  apply (simp add: returns_return_iff after_branch_def)
  apply (intro returns_bind returns_emit returns_return)
  apply (simp add: advances_def verification_calls_def correction_calls_def record_pass_def
      Let_def)
  done

lemma run_from_zero_threshold:
  assumes "always_fails orc"
    and "requiredSuccesses_of opts = 0"
    and "1 < maxErrors_of opts"
    and "0 < maxIterations_of opts"
  shows "returns (run_from opts orc) st (\<lambda>r st'.
           successfulVerifications r = 0 \<and> totalIterations r = 1 \<and>
           length (iterations r) = 1 \<and>
           (\<exists>evs. advances st st' (evs @ [Ev_success (finalSolution r) 1]) 1 1 \<and>
              filter is_failure evs = [] \<and> filter is_success evs = []))"
proof -
  from assms(1) have resp: "responsive orc" by (simp add: always_fails_def)
  let ?st0 = "st\<lparr>events := events st @ [Ev_init (problemStatement opts)]\<rparr>"
  obtain sol v evs st1 where init:
    "initialExploration opts orc (problemStatement opts) (otherPrompts opts) ?st0
       = (Inr (Some (sol, v)), st1)"
    "\<not> verdict_passed v" "advances ?st0 st1 evs 1 0"
    "filter is_failure evs = []" "filter is_success evs = []"
    using initialExploration_fails [OF assms(1), of opts "problemStatement opts"
        "otherPrompts opts" ?st0]
    unfolding returns_def by blast
  let ?lv = "\<lparr>cur_solution = sol, cur_verification = v, iterations_log = [],
              verifications_log = [], errorCount = 0, correctCount = 0\<rparr>"
  have "returns (loop_pass opts orc sol 0 ?lv) st1 (\<lambda>x st'.
           \<exists>t r. advances st1 st'
               [Ev_correction 0, Ev_solution t (0 + 1), Ev_success t (0 + 1)] 0 1 \<and>
             x = Return r \<and> successfulVerifications r = 0 \<and> totalIterations r = 0 + 1 \<and>
             finalSolution r = t \<and>
             length (iterations r) = Suc (length (iterations_log ?lv)))"
    using init(2) assms(2,3) by (intro loop_pass_failed_return [OF resp]) simp_all
  then obtain r st2 where pass:
    "loop_pass opts orc sol 0 ?lv st1 = (Inr (Return r), st2)"
    "advances st1 st2
       [Ev_correction 0, Ev_solution (finalSolution r) 1, Ev_success (finalSolution r) 1] 0 1"
    "successfulVerifications r = 0" "totalIterations r = 1" "length (iterations r) = 1"
    unfolding returns_def by auto
  from pass(1) assms(4) have loop: "main_loop opts orc sol 0 ?lv st1 = (Inr (Returned r), st2)"
    by (subst main_loop.simps) simp
  have run: "run_from opts orc st = (Inr r, st2)"
    unfolding run_from_def using init(1,2) loop
    by (simp add: bind_emit bind_known return_io_def)
  have "\<exists>es. advances st st2 (es @ [Ev_success (finalSolution r) 1]) 1 1 \<and>
      filter is_failure es = [] \<and> filter is_success es = []"
    by (rule exI [of _ "Ev_init (problemStatement opts) # evs @
          [Ev_correction 0, Ev_solution (finalSolution r) 1]"])
      (use init(3,4,5) pass(2) in
        \<open>simp add: advances_def verification_calls_def correction_calls_def\<close>)
  with run pass(3,4,5) show ?thesis
    unfolding returns_def by auto
qed

lemma failure_events_of_advances:
  "advances st st' evs nv nc \<Longrightarrow> failure_events st' = failure_events st @ filter is_failure evs"
  "advances st st' evs nv nc \<Longrightarrow> success_events st' = success_events st @ filter is_success evs"
  by (simp_all add: advances_def failure_events_def success_events_def)

text \<open>\<open>indexOf\<close> finds the first place where the marker starts, or none where it starts nowhere.\<close>

lemma indexOf_first:
  "indexOf s m = Some i \<Longrightarrow>
     i \<le> length s \<and> prefix m (drop i s) \<and> (\<forall>k<i. \<not> prefix m (drop k s))"
proof (induction s arbitrary: i)
  case Nil
  then show ?case by (simp split: if_splits)
next
  case (Cons c cs)
  show ?case
  proof (cases "prefix m (c # cs)")
    case True
    with Cons.prems show ?thesis by simp
  next
    case False
    with Cons.prems obtain j where j: "indexOf cs m = Some j" "i = Suc j"
      by (cases "indexOf cs m") simp_all
    from Cons.IH [OF j(1)] have ih: "j \<le> length cs" "prefix m (drop j cs)"
      "\<And>k. k < j \<Longrightarrow> \<not> prefix m (drop k cs)" by simp_all
    have "\<not> prefix m (drop k (c # cs))" if "k < i" for k
    proof (cases k)
      case 0
      with False show ?thesis by simp
    next
      case (Suc k')
      with that j(2) have "k' < j" by simp
      from ih(3) [OF this] Suc show ?thesis by simp
    qed
    with ih(1,2) j(2) show ?thesis by simp
  qed
qed

lemma indexOf_absent:
  "indexOf s m = None \<Longrightarrow> k \<le> length s \<Longrightarrow> \<not> prefix m (drop k s)"
proof (induction s arbitrary: k)
  case Nil
  then show ?case by (simp split: if_splits)
next
  case (Cons c cs)
  from Cons.prems(1) have np: "\<not> prefix m (c # cs)"
    by (cases "prefix m (c # cs)") simp_all
  with Cons.prems(1) have rest: "indexOf cs m = None" by simp
  show ?case
  proof (cases k)
    case 0
    with np show ?thesis by simp
  next
    case (Suc k')
    with Cons.prems(2) have "k' \<le> length cs" by simp
    from Cons.IH [OF rest this] Suc show ?thesis by simp
  qed
qed

lemma detailed_portion_example: "extractDetailedSolution ''Sketch. Detailed Solution  x = 1 '' extractDetailedSolutionMarker True = ''x = 1''"
  by code_simp

lemma yes_port_provider: "createModelProvider yes_port n m = None"
  by (simp add: yes_port_def)

section \<open>Steps of the multi-agent run\<close>

lemma foldl_agent_onProgress_config:
  "config_of (foldl (\<lambda>r event. agent_onProgress event r) r0 evs) = config_of r0"
proof (induction evs arbitrary: r0)
  case Nil
  show ?case by simp
next
  case (Cons e evs)
  have "config_of (agent_onProgress e r0) = config_of r0"
    by (cases e) (simp_all add: config_of_def)
  with Cons.IH [of "agent_onProgress e r0"] show ?case by simp
qed

lemma runAgent_config: "config_of (runAgent opts port config problem) = config"
proof -
  obtain out st where run:
    "DeepThinkEngine_run (agent_engine_options opts config problem) port = (out, st)"
    by (cases "DeepThinkEngine_run (agent_engine_options opts config problem) port")
  let ?r0 = "\<lparr>agentId = agentId config, approach = approach config,
                     specificPrompt = specificPrompt config,
                     AgentResult.status = thinking, progress = 0,
                     AgentResult.solution = None, AgentResult.verifications = None,
                     error = None\<rparr>"
  have c0: "config_of ?r0 = config" by (simp add: config_of_def)
  from foldl_agent_onProgress_config [of ?r0 "events st"] c0
  have c1: "config_of (foldl (\<lambda>r event. agent_onProgress event r) ?r0 (events st)) = config"
    by simp
  show ?thesis
  proof (cases out)
    case (Inl e)
    with run c1 show ?thesis
      by (simp add: runAgent_def Let_def config_of_def)
  next
    case (Inr r)
    with run c1 show ?thesis
      by (simp add: runAgent_def Let_def config_of_def)
  qed
qed

lemma runAgent_throws:
  assumes "DeepThinkEngine_run (agent_engine_options opts config problem) port = (Inl e, st)"
  shows "AgentResult.status (runAgent opts port config problem) = failed"
    and "error (runAgent opts port config problem) = Some (error_message e)"
  using assms by (simp_all add: runAgent_def Let_def)

lemma runAgent_returns:
  assumes "DeepThinkEngine_run (agent_engine_options opts config problem) port = (Inr r, st)"
  shows "AgentResult.status (runAgent opts port config problem) = completed"
    and "AgentResult.solution (runAgent opts port config problem) = Some (finalSolution r)"
    and "AgentResult.verifications (runAgent opts port config problem) = Some (verifications r)"
    and "progress (runAgent opts port config problem) = 100"
  using assms by (simp_all add: runAgent_def Let_def)

lemma length_run_agents [simp]: "length (run_agents opts agents cfgs problem) = length cfgs"
  by (simp add: run_agents_def)

lemma nth_run_agents:
  "k < length cfgs \<Longrightarrow>
   run_agents opts agents cfgs problem ! k = runAgent opts (agents k) (cfgs ! k) problem"
  by (simp add: run_agents_def)

lemma map_config_of_run_agents:
  "map config_of (run_agents opts agents cfgs problem) = cfgs"
  by (rule nth_equalityI) (simp_all add: nth_run_agents runAgent_config)

lemma run_with_configs_returns:
  assumes "responsive orc"
  shows "returns (run_with_configs opts orc agents thePlan configs) st (\<lambda>res st'.
           plan res = thePlan \<and>
           agentResults res =
             run_agents opts agents (select_configs (numAgents opts) configs) (problemStatement opts) \<and>
           totalAgents res = length (select_configs (numAgents opts) configs) \<and>
           completedAgents res =
             length (filter (\<lambda>r. AgentResult.status r = completed) (agentResults res)) \<and>
           UltraThinkResult.finalSolution res = synthesis res \<and>
           events st' = events st @
             [Ev_progress (''Running '' @ decimal (totalAgents res) @ '' agents in parallel...''),
              Ev_progress ''Synthesizing results...'', Ev_success (synthesis res) 1] \<and>
           calls st' = calls st @
             [CreateModelProvider (getModelForStage opts Stage_synthesis),
              GenerateText (Req_synthesis (problemStatement opts)
                (agentResultsText (agentResults res)))])"
  unfolding run_with_configs_def Let_def
  apply (intro returns_bind returns_emit returns_provider returns_generateText returns_return assms)
  apply simp
  done

lemma ensures_generateObject:
  "E (st\<lparr>calls := calls st @ [GenerateObject r]\<rparr>) \<Longrightarrow>
   (\<And>x. Q x (st\<lparr>calls := calls st @ [GenerateObject r]\<rparr>)) \<Longrightarrow>
   ensures (await_generateObject orc r) st E Q"
  by (simp add: ensures_def await_generateObject_def split: sum.split)

lemma ensures_catch:
  assumes "ensures m st (\<lambda>st1. \<forall>e. ensures (handler e) st1 E Q) Q"
  shows "ensures (catch_io m handler) st E Q"
proof (cases "m st")
  case (Pair out st1)
  show ?thesis
  proof (cases out)
    case (Inl e)
    with Pair assms have "ensures (handler e) st1 E Q"
      by (simp add: ensures_def)
    with Pair Inl show ?thesis
      by (simp add: ensures_def catch_io_def)
  next
    case (Inr x)
    with Pair assms show ?thesis
      by (simp add: ensures_def catch_io_def)
  qed
qed

lemma generatePlan_quiet:
  "ensures (generatePlan opts orc problem) st (quiet st) (\<lambda>x. quiet st)"
  unfolding generatePlan_def
  by (intro ensures_bind ensures_emit ensures_provider ensures_generateText)
    (simp_all add: quiet_def failure_events_def success_events_def)

lemma generateAgentConfigs_quiet:
  "ensures (generateAgentConfigs rt opts orc thePlan) st (quiet st) (\<lambda>x. quiet st)"
  unfolding generateAgentConfigs_def
  apply (intro ensures_bind ensures_emit ensures_provider)
   apply (simp add: quiet_def failure_events_def success_events_def)
  apply (rule ensures_catch)
  apply (intro ensures_bind ensures_generateObject)
   apply (intro allI ensures_bind ensures_generateText)
    apply (simp add: quiet_def failure_events_def success_events_def)
   apply (simp add: quiet_def failure_events_def success_events_def ensures_def throw_io_def
      return_io_def split: sum.split)
  apply (intro ensures_return)
  apply (simp add: quiet_def failure_events_def success_events_def)
  done

lemma run_with_configs_no_failure:
  "ensures (run_with_configs opts orc agents thePlan configs) st
     (\<lambda>st'. failure_events st' = failure_events st)
     (\<lambda>x st'. failure_events st' = failure_events st)"
  unfolding run_with_configs_def Let_def
  by (intro ensures_bind ensures_emit ensures_provider ensures_generateText ensures_return)
    (simp_all add: failure_events_def)

lemma plan_and_configure_quiet:
  "failure_events (snd (plan_and_configure rt opts orc)) = []"
  "success_events (snd (plan_and_configure rt opts orc)) = []"
proof -
  let ?s = "\<lparr>events = [], calls = []\<rparr>"
  have "ensures
     (bind_io (emit (Ev_init (problemStatement opts))) (\<lambda>_.
      bind_io (generatePlan opts orc (problemStatement opts)) (\<lambda>thePlan.
      bind_io (generateAgentConfigs rt opts orc thePlan) (\<lambda>configs.
      return_io (thePlan, configs))))) ?s (quiet ?s) (\<lambda>x. quiet ?s)"
    apply (intro ensures_bind ensures_emit)
    apply (rule ensures_weaken [OF generatePlan_quiet])
     apply (simp add: quiet_def failure_events_def success_events_def)
    apply (intro ensures_bind)
    apply (rule ensures_weaken [OF generateAgentConfigs_quiet])
     apply (simp add: quiet_def failure_events_def success_events_def)
    apply (intro ensures_return)
    apply (simp add: quiet_def failure_events_def success_events_def)
    done
  then have "quiet ?s (snd (plan_and_configure rt opts orc))"
    unfolding plan_and_configure_def ensures_def
    by (auto split: prod.splits sum.splits)
  then show "failure_events (snd (plan_and_configure rt opts orc)) = []"
    "success_events (snd (plan_and_configure rt opts orc)) = []"
    by (simp_all add: quiet_def failure_events_def success_events_def)
qed

lemma UltraThinkEngine_run_silent:
  assumes "UltraThinkEngine_run rt opts orc agents = Some (out, st)"
  shows "failure_events st = []"
proof -
  obtain out1 st1 where pc: "plan_and_configure rt opts orc = (out1, st1)"
    by (cases "plan_and_configure rt opts orc")
  from plan_and_configure_quiet(1) [of rt opts orc] pc have f1: "failure_events st1 = []" by simp
  show ?thesis
  proof (cases out1)
    case (Inl e)
    with assms pc f1 show ?thesis
      by (simp add: UltraThinkEngine_run_def)
  next
    case (Inr pv)
    obtain thePlan v where pv: "pv = (thePlan, v)" by (cases pv)
    from assms pc Inr pv obtain typed where t: "as_AgentConfigs v = Some typed"
      and r: "run_with_configs opts orc agents thePlan typed st1 = (out, st)"
      by (cases "as_AgentConfigs v") (simp_all add: UltraThinkEngine_run_def)
    from run_with_configs_no_failure [of opts orc agents thePlan typed st1] r f1
    show ?thesis
      by (cases out) (simp_all add: ensures_def)
  qed
qed

lemma UltraThinkEngine_run_returns:
  assumes "plan_and_configure rt opts orc = (Inr (thePlan, v), st1)"
    and "as_AgentConfigs v = Some configs"
    and "responsive orc"
  shows "\<exists>res st. UltraThinkEngine_run rt opts orc agents = Some (Inr res, st) \<and>
           plan res = thePlan \<and>
           agentResults res =
             run_agents opts agents (select_configs (numAgents opts) configs) (problemStatement opts) \<and>
           totalAgents res = length (select_configs (numAgents opts) configs) \<and>
           completedAgents res =
             length (filter (\<lambda>r. AgentResult.status r = completed) (agentResults res)) \<and>
           UltraThinkResult.finalSolution res = synthesis res \<and>
           events st = events st1 @
             [Ev_progress (''Running '' @ decimal (totalAgents res) @ '' agents in parallel...''),
              Ev_progress ''Synthesizing results...'', Ev_success (synthesis res) 1] \<and>
           calls st = calls st1 @
             [CreateModelProvider (getModelForStage opts Stage_synthesis),
              GenerateText (Req_synthesis (problemStatement opts)
                (agentResultsText (agentResults res)))]"
  using run_with_configs_returns [OF assms(3), of opts agents thePlan configs st1] assms(1,2)
  unfolding returns_def UltraThinkEngine_run_def
  by auto

lemma as_AgentConfig_json [simp]: "as_AgentConfig (json_of_AgentConfig c) = Some c"
  by (simp add: json_of_AgentConfig_def)

lemma as_AgentConfigs_json: "as_AgentConfigs (JArr (map json_of_AgentConfig cfgs)) = Some cfgs"
  by (simp add: list_all_iff comp_def)

lemma yes_port_responsive: "responsive yes_port"
  using yes_port_passes by (simp add: always_passes_def)

lemma planner_port_responsive: "responsive planner_port"
  using yes_port_responsive by (simp add: responsive_def planner_port_def)

lemma planner_plans:
  "fst (plan_and_configure sample_runtime opts planner_port) =
     Inr (''Yes.'', JArr (map json_of_AgentConfig sample_configs))"
  by (simp add: plan_and_configure_def generatePlan_def generateAgentConfigs_def bind_io_def
      catch_io_def emit_def await_createModelProvider_def await_generateText_def
      await_generateObject_def return_io_def planner_port_def yes_port_def)

lemma agent_engine_limits [simp]:
  "maxIterations_of (agent_engine_options opts c p) = maxIterations_of opts"
  "requiredSuccesses_of (agent_engine_options opts c p) = requiredSuccesses_of opts"
  "maxErrors_of (agent_engine_options opts c p) = maxErrors_of opts"
  by (simp_all add: agent_engine_options_def maxIterations_of_def requiredSuccesses_of_def
      maxErrors_of_def)

lemma uncapped_limits:
  "maxIterations_of uncapped_options = 30"
  "requiredSuccesses_of uncapped_options = 3"
  "maxErrors_of uncapped_options = 10"
  "maxIterations_of capped_options = 30"
  "requiredSuccesses_of capped_options = 3"
  "maxErrors_of capped_options = 10"
  by (simp_all add: uncapped_options_def capped_options_def maxIterations_of_def
      requiredSuccesses_of_def maxErrors_of_def)

lemma provider_throws_run_throws:
  assumes "\<And>n m. createModelProvider orc n m = Some e"
  shows "fst (DeepThinkEngine_run opts orc) = Inl e"
  by (simp add: DeepThinkEngine_run_def run_from_def initialExploration_def bind_io_def emit_def
      await_createModelProvider_def assms)

lemma silent_error_port_throws:
  "fst (DeepThinkEngine_run opts silent_error_port) = Inl (JsError [])"
  by (rule provider_throws_run_throws) (simp add: silent_error_port_def)

lemma runAgent_silent_error:
  "AgentResult.status (runAgent opts silent_error_port c p) = failed"
  "error (runAgent opts silent_error_port c p) = Some []"
proof -
  obtain st where "DeepThinkEngine_run (agent_engine_options opts c p) silent_error_port
      = (Inl (JsError []), st)"
    using silent_error_port_throws [of "agent_engine_options opts c p"]
    by (cases "DeepThinkEngine_run (agent_engine_options opts c p) silent_error_port") simp
  from runAgent_throws [OF this]
  show "AgentResult.status (runAgent opts silent_error_port c p) = failed"
    "error (runAgent opts silent_error_port c p) = Some []"
    by simp_all
qed

lemma runAgent_yes_port:
  assumes "requiredSuccesses_of opts = 3" "maxIterations_of opts = 30"
  shows "AgentResult.status (runAgent opts yes_port c p) = completed"
    and "error (runAgent opts yes_port c p) = None"
proof -
  let ?o = "agent_engine_options opts c p"
  have "returns (run_from ?o yes_port) \<lparr>events = [], calls = []\<rparr> (\<lambda>r st.
      failure_events st = failure_events \<lparr>events = [], calls = []\<rparr>)"
    by (rule returns_weaken [OF run_from_always_passes [OF yes_port_passes]])
      (auto simp: assms failure_events_of_advances)
  then obtain r st where run: "DeepThinkEngine_run ?o yes_port = (Inr r, st)"
    and nf: "failure_events st = []"
    unfolding returns_def DeepThinkEngine_run_def by (auto simp: failure_events_def)
  from runAgent_returns(1) [OF run]
  show "AgentResult.status (runAgent opts yes_port c p) = completed" .
  have "error (foldl (\<lambda>r event. agent_onProgress event r) r0 evs) = error r0"
    if "filter is_failure evs = []" for r0 :: AgentResult and evs
    using that
  proof (induction evs arbitrary: r0)
    case Nil
    show ?case by simp
  next
    case (Cons e evs)
    from Cons.prems have "\<not> is_failure e" "filter is_failure evs = []"
      by (auto split: if_splits)
    moreover from this(1) have "error (agent_onProgress e r0) = error r0"
      by (cases e) simp_all
    ultimately show ?case using Cons.IH [of "agent_onProgress e r0"] by simp
  qed
  with nf run show "error (runAgent opts yes_port c p) = None"
    by (simp add: runAgent_def Let_def failure_events_def)
qed

lemma select_configs_simps:
  "select_configs None cfgs = cfgs"
  "0 < M \<Longrightarrow> select_configs (Some M) cfgs = take M cfgs"
  by (simp_all add: select_configs_def)

lemma planner_reaches_dispatch:
  "\<exists>st1. plan_and_configure sample_runtime opts planner_port =
     (Inr (''Yes.'', JArr (map json_of_AgentConfig sample_configs)), st1)"
  using planner_plans [of opts]
  by (cases "plan_and_configure sample_runtime opts planner_port") simp

lemma run_agents_all_silent_error:
  "filter (\<lambda>r. AgentResult.status r = completed)
     (run_agents opts (\<lambda>k. silent_error_port) cfgs p) = []"
  by (auto simp: filter_empty_conv in_set_conv_nth nth_run_agents runAgent_silent_error)

lemma error_message_empty: "error_message e = [] \<longleftrightarrow> e = JsError []"
  by (cases e) simp_all

lemma mixed_world:
  "\<exists>res st. UltraThinkEngine_run sample_runtime uncapped_options planner_port mixed_agents
        = Some (Inr res, st) \<and>
      map AgentResult.status (agentResults res) = [failed, completed] \<and>
      map error (agentResults res) = [Some [], None] \<and>
      completedAgents res = 1"
proof -
  obtain st1 where pc: "plan_and_configure sample_runtime uncapped_options planner_port =
     (Inr (''Yes.'', JArr (map json_of_AgentConfig sample_configs)), st1)"
    using planner_reaches_dispatch by blast
  have sel: "select_configs (numAgents uncapped_options) sample_configs = sample_configs"
    by (simp add: uncapped_options_def select_configs_def)
  from UltraThinkEngine_run_returns [OF pc as_AgentConfigs_json planner_port_responsive,
      of mixed_agents]
  obtain res st where run:
    "UltraThinkEngine_run sample_runtime uncapped_options planner_port mixed_agents
       = Some (Inr res, st)"
    and ar: "agentResults res = run_agents uncapped_options mixed_agents sample_configs
      (problemStatement uncapped_options)"
    and ca: "completedAgents res =
           length (filter (\<lambda>r. AgentResult.status r = completed) (agentResults res))"
    unfolding sel by blast
  have two: "agentResults res =
     [runAgent uncapped_options silent_error_port (sample_configs ! 0) (problemStatement uncapped_options),
      runAgent uncapped_options yes_port (sample_configs ! 1) (problemStatement uncapped_options)]"
    unfolding ar
    by (rule nth_equalityI)
      (auto simp: nth_run_agents sample_configs_def mixed_agents_def less_Suc_eq numeral_2_eq_2)
  have st: "map AgentResult.status (agentResults res) = [failed, completed]"
    and er: "map error (agentResults res) = [Some [], None]"
    unfolding two
    by (simp_all add: runAgent_silent_error runAgent_yes_port uncapped_limits)
  from ca st have c1: "completedAgents res = 1"
    unfolding two by (simp add: runAgent_silent_error runAgent_yes_port uncapped_limits)
  show ?thesis
    by (rule exI [of _ res], rule exI [of _ st]) (simp add: run st er c1)
qed

lemma fenced_text: "strip_code_fence ''```json {} ```'' = ''{}''"
  by code_simp

text \<open>What the fallback does on a text that does not parse.\<close>

lemma fallback_reports_parse_failure:
  assumes "JSON_parse rt jsonText = Inl msg"
  shows "parse_agent_configs rt jsonText =
    Inl (JsError (''Failed to parse agent configurations. Original error: '' @ msg @
      ''. Response text: '' @ take 200 jsonText @ ''...''))"
  using assms by (simp add: parse_agent_configs_def parse_failure_message_def)

section \<open>The claims\<close>

subsection \<open>C1: the always-passing run\<close>

text \<open>
  C1, amended. \<^verbatim>\<open>run\<close> starts \<open>correctCount\<close> at 1 when the initial verification
  passed, so that verification counts towards the threshold. For a threshold \<open>K \<ge> 2\<close> and
  a cap of at least \<open>K - 1\<close> passes, a run in which every call returns and every judgment
  passes returns with a success event as its last event, no failure event and
  \<open>successfulVerifications = K\<close>; every \<^verbatim>\<open>verifySolution\<close> call it made is recorded as
  one verification, and it made at most \<open>K\<close> of them, the one of
  \<^verbatim>\<open>initialExploration\<close> included, hence fewer than \<open>K\<close> after that one.
\<close>

theorem always_passing_run_succeeds:
  assumes "always_passes orc"
    and "2 \<le> requiredSuccesses_of opts"
    and "requiredSuccesses_of opts \<le> maxIterations_of opts + 1"
  shows "\<exists>res st. DeepThinkEngine_run opts orc = (Inr res, st) \<and>
           successfulVerifications res = requiredSuccesses_of opts \<and>
           failure_events st = [] \<and>
           success_events st = [Ev_success (finalSolution res) (totalIterations res)] \<and>
           last (events st) = Ev_success (finalSolution res) (totalIterations res) \<and>
           length (verifications res) = verification_calls st \<and>
           1 \<le> verification_calls st \<and>
           verification_calls st \<le> requiredSuccesses_of opts"
proof -
  let ?K = "requiredSuccesses_of opts"
  from run_from_always_passes [OF assms, of "\<lparr>events = [], calls = []\<rparr>"]
  obtain res st evs where run:
    "run_from opts orc \<lparr>events = [], calls = []\<rparr> = (Inr res, st)"
    "successfulVerifications res = ?K" "totalIterations res = ?K - 1"
    "length (verifications res) = ?K - 1"
    "advances \<lparr>events = [], calls = []\<rparr> st (evs @ [Ev_success (finalSolution res) (?K - 1)]) (?K - 1) 0"
    "filter is_failure evs = []" "filter is_success evs = []"
    unfolding returns_def by blast
  from run(5) have ev: "events st = evs @ [Ev_success (finalSolution res) (?K - 1)]"
    and vc: "verification_calls st = ?K - 1"
    by (simp_all add: advances_def verification_calls_def)
  with run ev vc assms(2) show ?thesis
    unfolding DeepThinkEngine_run_def
    by (simp add: failure_events_def success_events_def)
qed

text \<open>The defaults (threshold 3, cap 30) with a port whose every judgment is "Yes.".\<close>

theorem always_passing_run_succeeds_witness:
  "always_passes yes_port \<and> requiredSuccesses_of sample_options = 3 \<and>
   maxIterations_of sample_options = 30 \<and>
   (\<exists>res st. DeepThinkEngine_run sample_options yes_port = (Inr res, st) \<and>
      successfulVerifications res = 3 \<and> failure_events st = [] \<and>
      length (verifications res) = verification_calls st \<and>
      verification_calls st \<le> 3)"
  using always_passing_run_succeeds [of yes_port sample_options] yes_port_passes
  by (auto simp: sample_limits)

text \<open>
  C1 as stated fails. With the default threshold 3 the always-passing run makes two
  verification requests in all, that is one after the initial one and not three; with
  threshold 1 it reports \<open>successfulVerifications = 2\<close>.
\<close>

theorem always_passing_run_counterexample:
  "always_passes yes_port \<and>
   requiredSuccesses_of sample_options = 3 \<and>
   verification_calls (snd (DeepThinkEngine_run sample_options yes_port)) = 2 \<and>
   requiredSuccesses_of one_pass_options = 1 \<and>
   (case fst (DeepThinkEngine_run one_pass_options yes_port) of
      Inr res \<Rightarrow> successfulVerifications res = 2
    | Inl e \<Rightarrow> False)"
proof -
  have "returns (run_from sample_options yes_port) \<lparr>events = [], calls = []\<rparr> (\<lambda>r st'.
      \<exists>evs. advances \<lparr>events = [], calls = []\<rparr> st' evs 2 0)"
    by (rule returns_weaken [OF run_from_always_passes [OF yes_port_passes]])
      (auto simp: sample_limits)
  then have a: "verification_calls (snd (DeepThinkEngine_run sample_options yes_port)) = 2"
    unfolding DeepThinkEngine_run_def returns_def
    by (auto simp: advances_def verification_calls_def)
  have "returns (run_from one_pass_options yes_port) \<lparr>events = [], calls = []\<rparr> (\<lambda>r st'.
      successfulVerifications r = 2)"
    by (rule returns_weaken [OF run_from_passes_at_once [OF yes_port_passes]])
      (simp_all add: one_pass_limits)
  then have b: "case fst (DeepThinkEngine_run one_pass_options yes_port) of
      Inr res \<Rightarrow> successfulVerifications res = 2 | Inl e \<Rightarrow> False"
    unfolding DeepThinkEngine_run_def returns_def by auto
  from a b yes_port_passes show ?thesis
    by (simp add: sample_limits one_pass_limits)
qed

subsection \<open>C2: the text that Verify passes on\<close>

text \<open>
  C2, amended. \<^verbatim>\<open>verifySolution\<close> calls \<^verbatim>\<open>extractDetailedSolution\<close> with the marker
  "Detailed Solution" and \<^verbatim>\<open>after = true\<close>, and puts the result into the verification
  prompt, the first generation request it makes once the provider is there. The result is
  the text after the first occurrence of the marker with the white space at both ends
  trimmed; when the marker does not occur it is the empty string.
\<close>

theorem verify_passes_text_after_marker:
  assumes "createModelProvider orc (length (calls st)) (getModelForStage opts Stage_verification) = None"
  shows "(\<exists>rest. calls (snd (verifySolution opts orc problem sol st)) =
            calls st @
            [CreateModelProvider (getModelForStage opts Stage_verification),
             GenerateText (Req_verification problem
               (extractDetailedSolution sol extractDetailedSolutionMarker True))] @ rest) \<and>
         (\<not> js_includes sol extractDetailedSolutionMarker \<longrightarrow>
            extractDetailedSolution sol extractDetailedSolutionMarker True = []) \<and>
         (\<forall>idx. indexOf sol extractDetailedSolutionMarker = Some idx \<longrightarrow>
            prefix extractDetailedSolutionMarker (drop idx sol) \<and>
            (\<forall>k<idx. \<not> prefix extractDetailedSolutionMarker (drop k sol)) \<and>
            extractDetailedSolution sol extractDetailedSolutionMarker True =
              trim (drop (idx + length extractDetailedSolutionMarker) sol))"
proof -
  have "\<exists>rest. calls (snd (verifySolution opts orc problem sol st)) =
            calls st @
            [CreateModelProvider (getModelForStage opts Stage_verification),
             GenerateText (Req_verification problem
               (extractDetailedSolution sol extractDetailedSolutionMarker True))] @ rest"
  proof (cases "generateText orc (Suc (length (calls st)))
      (Req_verification problem (extractDetailedSolution sol extractDetailedSolutionMarker True))")
    case (Inl e)
    with assms show ?thesis
      by (simp add: verifySolution_def Let_def bind_io_def emit_def await_createModelProvider_def
          await_generateText_def)
  next
    case (Inr vo)
    show ?thesis
    proof (cases "generateText orc (Suc (Suc (length (calls st)))) (Req_check vo)")
      case (Inl e)
      with assms Inr show ?thesis
        by (simp add: verifySolution_def Let_def bind_io_def emit_def
            await_createModelProvider_def await_generateText_def)
    next
      case g: (Inr goodVerify)
      with assms Inr show ?thesis
        by (simp add: verifySolution_def Let_def bind_io_def emit_def
            await_createModelProvider_def await_generateText_def return_io_def)
    qed
  qed
  moreover have "\<not> js_includes sol extractDetailedSolutionMarker \<longrightarrow>
            extractDetailedSolution sol extractDetailedSolutionMarker True = []"
    by (simp add: js_includes_def extractDetailedSolution_def)
  moreover have "\<forall>idx. indexOf sol extractDetailedSolutionMarker = Some idx \<longrightarrow>
            prefix extractDetailedSolutionMarker (drop idx sol) \<and>
            (\<forall>k<idx. \<not> prefix extractDetailedSolutionMarker (drop k sol)) \<and>
            extractDetailedSolution sol extractDetailedSolutionMarker True =
              trim (drop (idx + length extractDetailedSolutionMarker) sol)"
    using indexOf_first [of sol extractDetailedSolutionMarker]
    by (simp add: extractDetailedSolution_def)
  ultimately show ?thesis by blast
qed

text \<open>A solution with a sketch, the marker and a padded detailed part.\<close>

theorem verify_passes_text_after_marker_witness:
  "\<exists>rest. calls (snd (verifySolution sample_options yes_port ''P''
       ''Sketch. Detailed Solution  x = 1 '' \<lparr>events = [], calls = []\<rparr>)) =
     [CreateModelProvider ''m'', GenerateText (Req_verification ''P'' ''x = 1'')] @ rest"
proof -
  have m: "getModelForStage sample_options Stage_verification = ''m''"
    by (simp add: getModelForStage_def sample_options_def)
  have "createModelProvider yes_port (length (calls \<lparr>events = [], calls = []\<rparr>))
      (getModelForStage sample_options Stage_verification) = None"
    by (rule yes_port_provider)
  from verify_passes_text_after_marker [OF this, of "''P''" "''Sketch. Detailed Solution  x = 1 ''"]
  have "\<exists>rest. calls (snd (verifySolution sample_options yes_port ''P''
       ''Sketch. Detailed Solution  x = 1 '' \<lparr>events = [], calls = []\<rparr>)) =
     calls \<lparr>events = [], calls = []\<rparr> @
     [CreateModelProvider (getModelForStage sample_options Stage_verification),
      GenerateText (Req_verification ''P''
        (extractDetailedSolution ''Sketch. Detailed Solution  x = 1 ''
          extractDetailedSolutionMarker True))] @ rest"
    by (rule conjunct1)
  then show ?thesis
    unfolding detailed_portion_example m by simp
qed

text \<open>
  C2 as stated fails: for the solution \<open>x = 1\<close>, which has no marker, the verification
  prompt gets the empty string and not the solution; and the text after the marker is
  trimmed, not passed as it is.
\<close>

theorem verify_passes_whole_text_counterexample:
  "\<not> js_includes ''x = 1'' extractDetailedSolutionMarker \<and>
   calls (snd (verifySolution sample_options yes_port ''P'' ''x = 1''
     \<lparr>events = [], calls = []\<rparr>)) ! 1 = GenerateText (Req_verification ''P'' []) \<and>
   drop (length extractDetailedSolutionMarker) ''Detailed Solution  x = 1 '' = ''  x = 1 '' \<and>
   extractDetailedSolution ''Detailed Solution  x = 1 '' extractDetailedSolutionMarker True
     = ''x = 1''"
  by code_simp

subsection \<open>C3: failure events\<close>

text \<open>
  C3 does not hold of the code: when the error threshold is reached, \<^verbatim>\<open>run\<close> emits the
  failure event "Too many errors" and leaves the loop with \<^verbatim>\<open>break\<close>, and the code
  after the loop emits the failure event "Max iterations reached" as well. With the
  default options and a port whose every judgment is "No.", the failure events of the run
  are these two.
\<close>

theorem run_emits_two_failure_events:
  "failure_events (snd (DeepThinkEngine_run sample_options no_port)) =
     [Ev_failure ''Too many errors'', Ev_failure ''Max iterations reached'']"
proof -
  let ?s = "\<lparr>events = [], calls = []\<rparr>"
  have "returns (run_from sample_options no_port) ?s (\<lambda>r st'.
      \<exists>evs. events st' = evs @ [Ev_failure ''Too many errors'', Ev_failure ''Max iterations reached'']
        \<and> filter is_failure evs = [])"
    by (rule returns_weaken [OF run_from_always_fails [OF no_port_fails]])
      (auto simp: sample_limits advances_def)
  then have "failure_events (snd (DeepThinkEngine_run sample_options no_port)) =
     [Ev_failure ''Too many errors'', Ev_failure ''Max iterations reached'']"
    unfolding DeepThinkEngine_run_def returns_def
    by (auto simp: failure_events_def)
  then show ?thesis .
qed

subsection \<open>C5: the always-failing run\<close>

text \<open>
  C5, amended. When every call returns, every judgment fails,
  \<open>maxErrorsBeforeGiveUp \<le> maxIterations\<close> and \<open>requiredSuccessfulVerifications \<ge> 1\<close>,
  \<^verbatim>\<open>run\<close> returns a result after a failure event and without a success event, with no
  successful verification. It makes \<open>maxErrorsBeforeGiveUp - 1\<close> correction requests, so at most
  \<open>maxErrorsBeforeGiveUp\<close>; and for an error threshold of at least 1 it stops in the pass that
  counts the \<open>maxErrorsBeforeGiveUp\<close>-th failed verification: that many verifications were
  made and recorded, and the event "Too many errors" was emitted.
\<close>

theorem always_failing_run_gives_up:
  assumes "always_fails orc"
    and "maxErrors_of opts \<le> maxIterations_of opts"
    and "1 \<le> requiredSuccesses_of opts"
  shows "\<exists>res st. DeepThinkEngine_run opts orc = (Inr res, st) \<and>
           success_events st = [] \<and> events st \<noteq> [] \<and> is_failure (last (events st)) \<and>
           successfulVerifications res = 0 \<and>
           correction_calls st = maxErrors_of opts - 1 \<and>
           correction_calls st \<le> maxErrors_of opts \<and>
           (1 \<le> maxErrors_of opts \<longrightarrow>
              Ev_failure ''Too many errors'' \<in> set (events st) \<and>
              verification_calls st = maxErrors_of opts \<and>
              length (verifications res) = maxErrors_of opts \<and>
              length (iterations res) = maxErrors_of opts)"
proof (cases "0 < maxIterations_of opts")
  case True
  let ?s = "\<lparr>events = [], calls = []\<rparr>"
  from run_from_always_fails [OF assms(1,3,2) True, of ?s]
  obtain res st evs where run:
    "run_from opts orc ?s = (Inr res, st)"
    "successfulVerifications res = 0"
    "length (iterations res) = Suc (maxErrors_of opts - 1)"
    "length (verifications res) = Suc (maxErrors_of opts - 1)"
    "advances ?s st (evs @ [Ev_failure ''Too many errors'', Ev_failure ''Max iterations reached''])
       (Suc (maxErrors_of opts - 1)) (maxErrors_of opts - 1)"
    "filter is_failure evs = []" "filter is_success evs = []"
    unfolding returns_def by blast
  from run(5) have ev: "events st = evs @ [Ev_failure ''Too many errors'', Ev_failure ''Max iterations reached'']"
    and vc: "verification_calls st = Suc (maxErrors_of opts - 1)"
    and cc: "correction_calls st = maxErrors_of opts - 1"
    by (simp_all add: advances_def verification_calls_def correction_calls_def)
  from run(1-4) run(7) ev vc cc show ?thesis
    unfolding DeepThinkEngine_run_def
    by (auto simp: success_events_def)
next
  case False
  with assms(2) have z: "maxIterations_of opts = 0" "maxErrors_of opts = 0" by simp_all
  let ?s = "\<lparr>events = [], calls = []\<rparr>"
  from run_from_no_iterations [OF assms(1) z(1), of ?s]
  obtain res st evs where run:
    "run_from opts orc ?s = (Inr res, st)"
    "successfulVerifications res = 0"
    "advances ?s st (evs @ [Ev_failure ''Max iterations reached'']) 1 0"
    "filter is_failure evs = []" "filter is_success evs = []"
    unfolding returns_def by blast
  from run(3) have ev: "events st = evs @ [Ev_failure ''Max iterations reached'']"
    and cc: "correction_calls st = 0"
    by (simp_all add: advances_def verification_calls_def correction_calls_def)
  from run(1,2) run(5) ev cc z show ?thesis
    unfolding DeepThinkEngine_run_def
    by (auto simp: success_events_def)
qed

text \<open>The defaults (error threshold 10, cap 30) with a port whose every judgment is "No.".\<close>

theorem always_failing_run_gives_up_witness:
  "always_fails no_port \<and> maxErrors_of sample_options = 10 \<and>
   maxIterations_of sample_options = 30 \<and> requiredSuccesses_of sample_options = 3 \<and>
   (\<exists>res st. DeepThinkEngine_run sample_options no_port = (Inr res, st) \<and>
      success_events st = [] \<and> is_failure (last (events st)) \<and>
      Ev_failure ''Too many errors'' \<in> set (events st) \<and>
      correction_calls st = 9 \<and> verification_calls st = 10 \<and>
      length (iterations res) = 10 \<and> successfulVerifications res = 0)"
  using always_failing_run_gives_up [of no_port sample_options] no_port_fails
  by (auto simp: sample_limits)

text \<open>
  C5 as stated fails where the success threshold is zero. With
  \<open>requiredSuccessfulVerifications = 0\<close> and the other defaults, the test
  \<^verbatim>\<open>correctCount >= requiredSuccesses\<close> after the first correction holds with
  \<open>correctCount = 0\<close>, so the run in which every judgment is "No." ends with a success
  event after one correction and one verification, and emits no failure event.
\<close>

theorem zero_threshold_run_counterexample:
  "always_fails no_port \<and>
   maxErrors_of zero_threshold_options = 10 \<and> maxIterations_of zero_threshold_options = 30 \<and>
   requiredSuccesses_of zero_threshold_options = 0 \<and>
   failure_events (snd (DeepThinkEngine_run zero_threshold_options no_port)) = [] \<and>
   length (success_events (snd (DeepThinkEngine_run zero_threshold_options no_port))) = 1 \<and>
   is_success (last (events (snd (DeepThinkEngine_run zero_threshold_options no_port)))) \<and>
   correction_calls (snd (DeepThinkEngine_run zero_threshold_options no_port)) = 1 \<and>
   verification_calls (snd (DeepThinkEngine_run zero_threshold_options no_port)) = 1 \<and>
   (case fst (DeepThinkEngine_run zero_threshold_options no_port) of
      Inr res \<Rightarrow> totalIterations res = 1 \<and> length (iterations res) = 1
    | Inl e \<Rightarrow> False)"
proof -
  let ?s = "\<lparr>events = [], calls = []\<rparr>"
  from run_from_zero_threshold [OF no_port_fails, of zero_threshold_options ?s]
  obtain res st evs where run:
    "run_from zero_threshold_options no_port ?s = (Inr res, st)"
    "totalIterations res = 1" "length (iterations res) = 1"
    "advances ?s st (evs @ [Ev_success (finalSolution res) 1]) 1 1"
    "filter is_failure evs = []" "filter is_success evs = []"
    unfolding returns_def by (auto simp: zero_threshold_limits)
  from run(4) have ev: "events st = evs @ [Ev_success (finalSolution res) 1]"
    and vc: "verification_calls st = 1" and cc: "correction_calls st = 1"
    by (simp_all add: advances_def verification_calls_def correction_calls_def)
  from run(1-3) run(5,6) ev vc cc no_port_fails show ?thesis
    unfolding DeepThinkEngine_run_def
    by (simp add: failure_events_def success_events_def zero_threshold_limits)
qed

subsection \<open>C8: \<open>passed\<close> and the raw verdict\<close>

text \<open>
  C8. In the result of a run, every recorded \<^verbatim>\<open>Verification\<close> has \<open>passed\<close> true exactly
  when its \<open>goodVerify\<close> in lower case contains "yes"; so two of them with the same
  \<open>goodVerify\<close> have the same \<open>passed\<close>. The verification held by each iteration is the one
  recorded with it.
\<close>

theorem passed_is_function_of_verdict:
  assumes "DeepThinkEngine_run opts orc = (Inr res, st)"
  shows "(\<forall>v\<in>set (verifications res).
            passed v = js_includes (toLowerCase (goodVerify v)) ''yes'') \<and>
         (\<forall>v\<in>set (verifications res). \<forall>w\<in>set (verifications res).
            goodVerify v = goodVerify w \<longrightarrow> passed v = passed w) \<and>
         map verification (iterations res) = verifications res"
proof -
  from run_from_effect [OF assms [unfolded DeepThinkEngine_run_def]]
  have "logs_ok (length (iterations res)) (iterations res) (verifications res)" by simp
  then show ?thesis
    unfolding logs_ok_def by simp
qed

text \<open>The always-passing run with the defaults records two verifications.\<close>

theorem passed_is_function_of_verdict_witness:
  "\<exists>res st. DeepThinkEngine_run sample_options yes_port = (Inr res, st) \<and>
      length (verifications res) = 2 \<and>
      list_all (\<lambda>v. passed v = js_includes (toLowerCase (goodVerify v)) ''yes'')
        (verifications res)"
proof -
  let ?s = "\<lparr>events = [], calls = []\<rparr>"
  have "returns (run_from sample_options yes_port) ?s (\<lambda>r st'. length (verifications r) = 2)"
    by (rule returns_weaken [OF run_from_always_passes [OF yes_port_passes]])
      (auto simp: sample_limits)
  then obtain res st where run: "DeepThinkEngine_run sample_options yes_port = (Inr res, st)"
    "length (verifications res) = 2"
    unfolding DeepThinkEngine_run_def returns_def by blast
  from passed_is_function_of_verdict [OF run(1)] run show ?thesis
    by (auto simp: list_all_iff)
qed

subsection \<open>C9: \<open>totalIterations\<close> after too many errors\<close>

text \<open>
  C9. A run that returns after the event "Too many errors" reports
  \<open>totalIterations = maxIterations\<close>. Its iterations are numbered from 0, so their number is
  the index of the last pass plus one; it is at most \<open>maxIterations\<close>, and strictly smaller
  whenever the threshold was reached before the last pass that the cap allows.
\<close>

theorem too_many_errors_reports_maxIterations:
  assumes "DeepThinkEngine_run opts orc = (Inr res, st)"
    and "Ev_failure ''Too many errors'' \<in> set (events st)"
  shows "totalIterations res = maxIterations_of opts \<and>
         iterations res \<noteq> [] \<and>
         length (iterations res) = Suc (iteration (last (iterations res))) \<and>
         length (iterations res) \<le> maxIterations_of opts \<and>
         (Suc (iteration (last (iterations res))) < maxIterations_of opts \<longrightarrow>
            length (iterations res) < totalIterations res)"
proof -
  note eff = run_from_effect [OF assms(1) [unfolded DeepThinkEngine_run_def]]
  from assms(2) have fe: "Ev_failure ''Too many errors'' \<in> set (failure_events st)"
    by (simp add: failure_events_def)
  have f0: "failure_events \<lparr>events = [], calls = []\<rparr> = []"
    by (simp add: failure_events_def)
  from eff fe have tot: "totalIterations res = maxIterations_of opts"
    and ne: "iterations res \<noteq> []"
    unfolding f0 by auto
  from eff have "map iteration (iterations res) = [0..<length (iterations res)]"
    by (simp add: logs_ok_def)
  with ne have "iteration (last (iterations res)) = last [0..<length (iterations res)]"
    by (metis last_map)
  with ne have "Suc (iteration (last (iterations res))) = length (iterations res)"
    by (cases "length (iterations res)") simp_all
  with eff tot ne show ?thesis by simp
qed

text \<open>With the defaults and every judgment failing: ten iterations recorded, thirty reported.\<close>

theorem too_many_errors_reports_maxIterations_witness:
  "\<exists>res st. DeepThinkEngine_run sample_options no_port = (Inr res, st) \<and>
      Ev_failure ''Too many errors'' \<in> set (events st) \<and>
      maxIterations_of sample_options = 30 \<and>
      totalIterations res = 30 \<and> length (iterations res) = 10 \<and>
      iteration (last (iterations res)) = 9"
proof -
  let ?s = "\<lparr>events = [], calls = []\<rparr>"
  have "returns (run_from sample_options no_port) ?s (\<lambda>r st'.
      length (iterations r) = 10 \<and> Ev_failure ''Too many errors'' \<in> set (events st'))"
    by (rule returns_weaken [OF run_from_always_fails [OF no_port_fails]])
      (auto simp: sample_limits advances_def)
  then obtain res st where run: "DeepThinkEngine_run sample_options no_port = (Inr res, st)"
    "length (iterations res) = 10" "Ev_failure ''Too many errors'' \<in> set (events st)"
    unfolding DeepThinkEngine_run_def returns_def by blast
  from too_many_errors_reports_maxIterations [OF run(1,3)] run show ?thesis
    by (auto simp: sample_limits)
qed

subsection \<open>C4: an agent whose run throws\<close>

text \<open>
  C4, amended. Let the plan and the configurations be there and the calls of the
  orchestrator return. Then the multi-agent run returns one result per dispatched
  configuration, each the result of \<^verbatim>\<open>runAgent\<close> on that configuration with the agent's
  own port, whatever the other agents do. An agent whose engine throws has status
  \<open>failed\<close> and as error the message of the thrown \<^verbatim>\<open>Error\<close>, or "Unknown error" for a
  thrown value that is no \<^verbatim>\<open>Error\<close>; the error is empty exactly when an \<^verbatim>\<open>Error\<close>
  with an empty message was thrown. An agent whose engine returns has status
  \<open>completed\<close> and the engine's final solution. \<open>completedAgents\<close> is the number of results
  with status \<open>completed\<close>, at most \<open>totalAgents\<close>.
\<close>

theorem agent_failure_is_isolated:
  assumes "plan_and_configure rt opts orc = (Inr (thePlan, v), st1)"
    and "as_AgentConfigs v = Some configs"
    and "responsive orc"
    and "selected = select_configs (numAgents opts) configs"
  shows "\<exists>res st. UltraThinkEngine_run rt opts orc agents = Some (Inr res, st) \<and>
     length (agentResults res) = length selected \<and>
     (\<forall>k e stk. k < length selected \<and>
        DeepThinkEngine_run (agent_engine_options opts (selected ! k) (problemStatement opts))
          (agents k) = (Inl e, stk) \<longrightarrow>
        AgentResult.status (agentResults res ! k) = failed \<and>
        error (agentResults res ! k) = Some (error_message e) \<and>
        (error (agentResults res ! k) = Some [] \<longleftrightarrow> e = JsError [])) \<and>
     (\<forall>j r stj. j < length selected \<and>
        DeepThinkEngine_run (agent_engine_options opts (selected ! j) (problemStatement opts))
          (agents j) = (Inr r, stj) \<longrightarrow>
        AgentResult.status (agentResults res ! j) = completed \<and>
        AgentResult.solution (agentResults res ! j) = Some (finalSolution r)) \<and>
     (\<forall>j. j < length selected \<longrightarrow>
        agentResults res ! j = runAgent opts (agents j) (selected ! j) (problemStatement opts)) \<and>
     completedAgents res =
       length (filter (\<lambda>r. AgentResult.status r = completed) (agentResults res)) \<and>
     completedAgents res \<le> totalAgents res"
proof -
  from UltraThinkEngine_run_returns [OF assms(1-3), of agents]
  obtain res st where run: "UltraThinkEngine_run rt opts orc agents = Some (Inr res, st)"
    and ar: "agentResults res = run_agents opts agents selected (problemStatement opts)"
    and ta: "totalAgents res = length selected"
    and ca: "completedAgents res =
           length (filter (\<lambda>r. AgentResult.status r = completed) (agentResults res))"
    unfolding assms(4) by blast
  have len: "length (agentResults res) = length selected"
    using ar by simp
  have nth: "\<forall>j. j < length selected \<longrightarrow>
        agentResults res ! j = runAgent opts (agents j) (selected ! j) (problemStatement opts)"
    using ar by (simp add: nth_run_agents)
  have thrown: "\<forall>k e stk. k < length selected \<and>
        DeepThinkEngine_run (agent_engine_options opts (selected ! k) (problemStatement opts))
          (agents k) = (Inl e, stk) \<longrightarrow>
        AgentResult.status (agentResults res ! k) = failed \<and>
        error (agentResults res ! k) = Some (error_message e) \<and>
        (error (agentResults res ! k) = Some [] \<longleftrightarrow> e = JsError [])"
  proof (intro allI impI, elim conjE)
    fix k e stk
    assume k: "k < length selected"
      and t: "DeepThinkEngine_run
        (agent_engine_options opts (selected ! k) (problemStatement opts)) (agents k) = (Inl e, stk)"
    from nth k have "agentResults res ! k =
        runAgent opts (agents k) (selected ! k) (problemStatement opts)" by simp
    with runAgent_throws [OF t]
    show "AgentResult.status (agentResults res ! k) = failed \<and>
        error (agentResults res ! k) = Some (error_message e) \<and>
        (error (agentResults res ! k) = Some [] \<longleftrightarrow> e = JsError [])"
      by (simp add: error_message_empty)
  qed
  have returned: "\<forall>j r stj. j < length selected \<and>
        DeepThinkEngine_run (agent_engine_options opts (selected ! j) (problemStatement opts))
          (agents j) = (Inr r, stj) \<longrightarrow>
        AgentResult.status (agentResults res ! j) = completed \<and>
        AgentResult.solution (agentResults res ! j) = Some (finalSolution r)"
  proof (intro allI impI, elim conjE)
    fix j r stj
    assume j: "j < length selected"
      and t: "DeepThinkEngine_run
        (agent_engine_options opts (selected ! j) (problemStatement opts)) (agents j) = (Inr r, stj)"
    from nth j have "agentResults res ! j =
        runAgent opts (agents j) (selected ! j) (problemStatement opts)" by simp
    with runAgent_returns(1,2) [OF t]
    show "AgentResult.status (agentResults res ! j) = completed \<and>
        AgentResult.solution (agentResults res ! j) = Some (finalSolution r)"
      by simp
  qed
  have le: "completedAgents res \<le> totalAgents res"
    unfolding ca ta len [symmetric] by (rule length_filter_le)
  show ?thesis
    apply (rule exI [of _ res])
    apply (rule exI [of _ st])
    apply (intro conjI)
          apply (rule run)
         apply (rule len)
        apply (rule thrown)
       apply (rule returned)
      apply (rule nth)
     apply (rule ca)
    apply (rule le)
    done
qed

text \<open>
  Two agents; the provider of the first throws an \<^verbatim>\<open>Error\<close>. The first result is
  \<open>failed\<close> with that error's message.
\<close>

theorem agent_failure_is_isolated_witness:
  "responsive planner_port \<and>
   fst (DeepThinkEngine_run
     (agent_engine_options uncapped_options (sample_configs ! 0) (problemStatement uncapped_options))
     (mixed_agents 0)) = Inl (JsError []) \<and>
   (\<exists>res st. UltraThinkEngine_run sample_runtime uncapped_options planner_port mixed_agents
        = Some (Inr res, st) \<and>
      length (agentResults res) = 2 \<and>
      AgentResult.status (agentResults res ! 0) = failed \<and>
      error (agentResults res ! 0) = Some (error_message (JsError [])) \<and>
      completedAgents res \<le> totalAgents res)"
proof -
  let ?o0 = "agent_engine_options uncapped_options (sample_configs ! 0)
      (problemStatement uncapped_options)"
  obtain st1 where pc: "plan_and_configure sample_runtime uncapped_options planner_port =
     (Inr (''Yes.'', JArr (map json_of_AgentConfig sample_configs)), st1)"
    using planner_reaches_dispatch by blast
  have sel: "sample_configs = select_configs (numAgents uncapped_options) sample_configs"
    by (simp add: uncapped_options_def select_configs_def)
  have t0: "fst (DeepThinkEngine_run ?o0 (mixed_agents 0)) = Inl (JsError [])"
    by (simp add: mixed_agents_def silent_error_port_throws)
  then obtain st0 where t: "DeepThinkEngine_run ?o0 (mixed_agents 0) = (Inl (JsError []), st0)"
    by (cases "DeepThinkEngine_run ?o0 (mixed_agents 0)") simp
  from agent_failure_is_isolated [OF pc as_AgentConfigs_json planner_port_responsive sel,
      of mixed_agents]
  obtain res st where run:
    "UltraThinkEngine_run sample_runtime uncapped_options planner_port mixed_agents
       = Some (Inr res, st)"
    and len: "length (agentResults res) = length sample_configs"
    and thrown: "\<forall>k e stk. k < length sample_configs \<and>
        DeepThinkEngine_run (agent_engine_options uncapped_options (sample_configs ! k)
          (problemStatement uncapped_options)) (mixed_agents k) = (Inl e, stk) \<longrightarrow>
        AgentResult.status (agentResults res ! k) = failed \<and>
        error (agentResults res ! k) = Some (error_message e) \<and>
        (error (agentResults res ! k) = Some [] \<longleftrightarrow> e = JsError [])"
    and le: "completedAgents res \<le> totalAgents res"
    by blast
  have l2: "length sample_configs = 2" by (simp add: sample_configs_def)
  from thrown t l2 have "AgentResult.status (agentResults res ! 0) = failed"
    "error (agentResults res ! 0) = Some (error_message (JsError []))"
    by (metis zero_less_numeral)+
  with run len l2 le t0 planner_port_responsive show ?thesis
    by (intro conjI exI [of _ res] exI [of _ st]) simp_all
qed

text \<open>
  C4 as stated fails: the \<^verbatim>\<open>Error\<close> that the first agent's provider throws has an empty
  message, and the agent's result is \<open>failed\<close> with the empty string as its error.
\<close>

theorem agent_failure_empty_error_counterexample:
  "fst (DeepThinkEngine_run
     (agent_engine_options uncapped_options (sample_configs ! 0) (problemStatement uncapped_options))
     (mixed_agents 0)) = Inl (JsError []) \<and>
   (case UltraThinkEngine_run sample_runtime uncapped_options planner_port mixed_agents of
      Some (Inr res, st) \<Rightarrow>
        map AgentResult.status (agentResults res) = [failed, completed] \<and>
        map error (agentResults res) = [Some [], None] \<and>
        completedAgents res = 1
    | _ \<Rightarrow> False)"
proof -
  have "fst (DeepThinkEngine_run
     (agent_engine_options uncapped_options (sample_configs ! 0) (problemStatement uncapped_options))
     (mixed_agents 0)) = Inl (JsError [])"
    by (simp add: mixed_agents_def silent_error_port_throws)
  with mixed_world show ?thesis by auto
qed

subsection \<open>C6: the free-text fallback\<close>

text \<open>
  C6 does not hold of the code. When the structured call throws and the free text, the
  fence removed, parses to an object without a \<^verbatim>\<open>configs\<close> property,
  \<^verbatim>\<open>parsed.configs || parsed\<close> is the object itself: \<^verbatim>\<open>generateAgentConfigs\<close> returns
  it, which is neither an array of configurations nor an error.
\<close>

theorem fallback_returns_unvalidated_object:
  assumes "createModelProvider orc (length (calls st)) (getModelForStage opts Stage_agentConfig)
      = None"
    and "generateObject orc (Suc (length (calls st))) (Req_agentConfig thePlan) = Inl e"
    and "generateText orc (Suc (Suc (length (calls st)))) (Req_agentConfig thePlan) = Inr reply"
    and "JSON_parse rt (strip_code_fence reply) = Inr (JObj kvs)"
    and "map_of kvs ''configs'' = None"
  shows "fst (generateAgentConfigs rt opts orc thePlan st) = Inr (JObj kvs) \<and>
         as_AgentConfigs (JObj kvs) = None"
  using assms
  by (simp add: generateAgentConfigs_def bind_io_def catch_io_def emit_def
      await_createModelProvider_def await_generateObject_def await_generateText_def
      parse_agent_configs_def return_io_def)

text \<open>
  The structured call throws and the free text is a fenced \<open>{}\<close>: the fallback
  returns the empty object, and the run that gets it is outside the typed model.
\<close>

theorem fallback_returns_unvalidated_object_witness:
  "fst (generateAgentConfigs sample_runtime sample_options fenced_port ''plan''
     \<lparr>events = [], calls = []\<rparr>) = Inr (JObj []) \<and>
   as_AgentConfigs (JObj []) = None \<and>
   UltraThinkEngine_run sample_runtime uncapped_options fenced_port mixed_agents = None"
proof -
  have a: "fst (generateAgentConfigs sample_runtime sample_options fenced_port ''plan''
     \<lparr>events = [], calls = []\<rparr>) = Inr (JObj []) \<and> as_AgentConfigs (JObj []) = None"
    by (rule fallback_returns_unvalidated_object [where e = JsNonError and reply = "''```json {} ```''"])
      (simp_all add: fenced_port_def yes_port_def sample_runtime_def fenced_text)
  have "fst (plan_and_configure sample_runtime uncapped_options fenced_port) =
      Inr (''```json {} ```'', JObj [])"
    by (simp add: plan_and_configure_def generatePlan_def generateAgentConfigs_def bind_io_def
      catch_io_def emit_def await_createModelProvider_def await_generateText_def
      await_generateObject_def return_io_def fenced_port_def yes_port_def
      parse_agent_configs_def sample_runtime_def fenced_text)
  then have "UltraThinkEngine_run sample_runtime uncapped_options fenced_port mixed_agents = None"
    by (cases "plan_and_configure sample_runtime uncapped_options fenced_port")
      (simp add: UltraThinkEngine_run_def)
  with a show ?thesis by simp
qed

subsection \<open>C7: the cap on the number of agents\<close>

text \<open>
  C7, amended. Let the plan and \<open>P\<close> configurations be there and the calls of the
  orchestrator return. With \<^verbatim>\<open>numAgents = M\<close> for \<open>0 < M < P\<close>, the run dispatches the
  first \<open>M\<close> configurations in their order, one \<^verbatim>\<open>runAgent\<close> each, and
  \<open>totalAgents = M\<close>. With no \<^verbatim>\<open>numAgents\<close>, and with \<^verbatim>\<open>numAgents = 0\<close>, which the code
  takes for "not set" as the caller does, it dispatches all \<open>P\<close> and \<open>totalAgents = P\<close>.
\<close>

theorem cap_selects_first_configs:
  assumes "plan_and_configure rt opts orc = (Inr (thePlan, v), st1)"
    and "as_AgentConfigs v = Some configs"
    and "responsive orc"
  shows "\<exists>res st. UltraThinkEngine_run rt opts orc agents = Some (Inr res, st) \<and>
           (\<forall>M. numAgents opts = Some M \<and> 0 < M \<and> M < length configs \<longrightarrow>
              totalAgents res = M \<and> length (agentResults res) = M \<and>
              map config_of (agentResults res) = take M configs \<and>
              agentResults res = run_agents opts agents (take M configs) (problemStatement opts)) \<and>
           (numAgents opts = None \<or> numAgents opts = Some 0 \<longrightarrow>
              totalAgents res = length configs \<and> length (agentResults res) = length configs \<and>
              map config_of (agentResults res) = configs \<and>
              agentResults res = run_agents opts agents configs (problemStatement opts))"
proof -
  from UltraThinkEngine_run_returns [OF assms, of agents]
  obtain res st where run: "UltraThinkEngine_run rt opts orc agents = Some (Inr res, st)"
    and ar: "agentResults res =
      run_agents opts agents (select_configs (numAgents opts) configs) (problemStatement opts)"
    and ta: "totalAgents res = length (select_configs (numAgents opts) configs)"
    by blast
  have capped: "\<forall>M. numAgents opts = Some M \<and> 0 < M \<and> M < length configs \<longrightarrow>
        totalAgents res = M \<and> length (agentResults res) = M \<and>
        map config_of (agentResults res) = take M configs \<and>
        agentResults res = run_agents opts agents (take M configs) (problemStatement opts)"
    using ar ta by (simp add: select_configs_simps map_config_of_run_agents)
  have uncapped: "numAgents opts = None \<or> numAgents opts = Some 0 \<longrightarrow>
        totalAgents res = length configs \<and> length (agentResults res) = length configs \<and>
        map config_of (agentResults res) = configs \<and>
        agentResults res = run_agents opts agents configs (problemStatement opts)"
  proof
    assume "numAgents opts = None \<or> numAgents opts = Some 0"
    then have "select_configs (numAgents opts) configs = configs"
      by (auto simp: select_configs_def)
    with ar ta show "totalAgents res = length configs \<and>
        length (agentResults res) = length configs \<and>
        map config_of (agentResults res) = configs \<and>
        agentResults res = run_agents opts agents configs (problemStatement opts)"
      by (simp add: map_config_of_run_agents)
  qed
  show ?thesis
    apply (rule exI [of _ res])
    apply (rule exI [of _ st])
    apply (intro conjI)
      apply (rule run)
     apply (rule capped)
    apply (rule uncapped)
    done
qed

text \<open>Two configurations, with a cap of one and without a cap.\<close>

theorem cap_selects_first_configs_witness:
  "responsive planner_port \<and> numAgents capped_options = Some 1 \<and> length sample_configs = 2 \<and>
   numAgents uncapped_options = None \<and>
   (\<exists>res st. UltraThinkEngine_run sample_runtime capped_options planner_port (\<lambda>k. yes_port)
        = Some (Inr res, st) \<and>
      totalAgents res = 1 \<and>
      map config_of (agentResults res) =
        [\<lparr>agentId = ''agent_01'', approach = ''direct'', specificPrompt = ''first''\<rparr>]) \<and>
   (\<exists>res st. UltraThinkEngine_run sample_runtime uncapped_options planner_port (\<lambda>k. yes_port)
        = Some (Inr res, st) \<and>
      totalAgents res = 2 \<and> map config_of (agentResults res) = sample_configs)"
proof -
  obtain st1 where pc: "plan_and_configure sample_runtime capped_options planner_port =
     (Inr (''Yes.'', JArr (map json_of_AgentConfig sample_configs)), st1)"
    using planner_reaches_dispatch by blast
  obtain st2 where pu: "plan_and_configure sample_runtime uncapped_options planner_port =
     (Inr (''Yes.'', JArr (map json_of_AgentConfig sample_configs)), st2)"
    using planner_reaches_dispatch by blast
  have n: "numAgents capped_options = Some 1" "length sample_configs = 2"
    "numAgents uncapped_options = None"
    by (simp_all add: capped_options_def uncapped_options_def sample_configs_def)
  from cap_selects_first_configs [OF pc as_AgentConfigs_json planner_port_responsive,
      of "\<lambda>k. yes_port"] n
  obtain res st where c:
    "UltraThinkEngine_run sample_runtime capped_options planner_port (\<lambda>k. yes_port)
        = Some (Inr res, st)"
    "totalAgents res = 1" "map config_of (agentResults res) = take 1 sample_configs"
    by auto
  from cap_selects_first_configs [OF pu as_AgentConfigs_json planner_port_responsive,
      of "\<lambda>k. yes_port"] n
  obtain res' st' where u:
    "UltraThinkEngine_run sample_runtime uncapped_options planner_port (\<lambda>k. yes_port)
        = Some (Inr res', st')"
    "totalAgents res' = 2" "map config_of (agentResults res') = sample_configs"
    by auto
  from c have c': "\<exists>res st. UltraThinkEngine_run sample_runtime capped_options planner_port (\<lambda>k. yes_port)
        = Some (Inr res, st) \<and>
      totalAgents res = 1 \<and>
      map config_of (agentResults res) =
        [\<lparr>agentId = ''agent_01'', approach = ''direct'', specificPrompt = ''first''\<rparr>]"
    by (simp add: sample_configs_def)
  from u have u': "\<exists>res st. UltraThinkEngine_run sample_runtime uncapped_options planner_port (\<lambda>k. yes_port)
        = Some (Inr res, st) \<and>
      totalAgents res = 2 \<and> map config_of (agentResults res) = sample_configs"
    by simp
  from c' u' n planner_port_responsive show ?thesis by simp
qed

text \<open>
  C7 as stated fails for \<open>M = 0\<close>: with \<^verbatim>\<open>numAgents = 0\<close> and two configurations the
  run dispatches both, and \<open>totalAgents = 2\<close>.
\<close>

theorem zero_cap_dispatches_all_counterexample:
  "numAgents zero_cap_options = Some 0 \<and> length sample_configs = 2 \<and>
   (case UltraThinkEngine_run sample_runtime zero_cap_options planner_port mixed_agents of
      Some (Inr res, st) \<Rightarrow>
        totalAgents res = 2 \<and> length (agentResults res) = 2 \<and>
        map config_of (agentResults res) = sample_configs
    | _ \<Rightarrow> False)"
proof -
  obtain st1 where pc: "plan_and_configure sample_runtime zero_cap_options planner_port =
     (Inr (''Yes.'', JArr (map json_of_AgentConfig sample_configs)), st1)"
    using planner_reaches_dispatch by blast
  have n: "numAgents zero_cap_options = Some 0" "length sample_configs = 2"
    by (simp_all add: zero_cap_options_def sample_configs_def)
  then have sel: "select_configs (numAgents zero_cap_options) sample_configs = sample_configs"
    by (simp add: select_configs_def)
  from UltraThinkEngine_run_returns [OF pc as_AgentConfigs_json planner_port_responsive,
      of mixed_agents]
  obtain res st where run:
    "UltraThinkEngine_run sample_runtime zero_cap_options planner_port mixed_agents
       = Some (Inr res, st)"
    and ar: "agentResults res = run_agents zero_cap_options mixed_agents sample_configs
      (problemStatement zero_cap_options)"
    and ta: "totalAgents res = length sample_configs"
    unfolding sel by blast
  from ar have "map config_of (agentResults res) = sample_configs"
    "length (agentResults res) = 2"
    by (simp_all add: map_config_of_run_agents n)
  with run ta n show ?thesis by simp
qed

subsection \<open>C10: no failure event from the orchestrator\<close>

text \<open>
  C10. No run of \<^verbatim>\<open>UltraThinkEngine.run\<close> on values of their declared types emits a
  failure event, whether it returns or throws. Once the plan and the configurations are there and the calls of the
  orchestrator return, the run makes the synthesis request as its last call, emits the
  success event with \<open>iterations = 1\<close> as its last event and returns its result, whatever
  the agents did.
\<close>

theorem orchestration_never_emits_failure:
  "(\<forall>out st. UltraThinkEngine_run rt opts orc agents = Some (out, st) \<longrightarrow>
      failure_events st = []) \<and>
   (\<forall>thePlan v st1 configs.
      plan_and_configure rt opts orc = (Inr (thePlan, v), st1) \<and>
      as_AgentConfigs v = Some configs \<and> responsive orc \<longrightarrow>
      (\<exists>res st. UltraThinkEngine_run rt opts orc agents = Some (Inr res, st) \<and>
         last (calls st) =
           GenerateText (Req_synthesis (problemStatement opts)
             (agentResultsText (agentResults res))) \<and>
         last (events st) = Ev_success (synthesis res) 1 \<and>
         success_events st = [Ev_success (synthesis res) 1] \<and>
         UltraThinkResult.finalSolution res = synthesis res \<and>
         completedAgents res =
           length (filter (\<lambda>r. AgentResult.status r = completed) (agentResults res))))"
proof (intro conjI allI impI)
  fix out st
  assume "UltraThinkEngine_run rt opts orc agents = Some (out, st)"
  then show "failure_events st = []" by (rule UltraThinkEngine_run_silent)
next
  fix thePlan v st1 configs
  assume a: "plan_and_configure rt opts orc = (Inr (thePlan, v), st1) \<and>
      as_AgentConfigs v = Some configs \<and> responsive orc"
  then have pc: "plan_and_configure rt opts orc = (Inr (thePlan, v), st1)"
    and ty: "as_AgentConfigs v = Some configs" and re: "responsive orc" by simp_all
  from UltraThinkEngine_run_returns [OF pc ty re, of agents]
  obtain res st where run: "UltraThinkEngine_run rt opts orc agents = Some (Inr res, st)"
    and ca: "completedAgents res =
           length (filter (\<lambda>r. AgentResult.status r = completed) (agentResults res))"
    and fs: "UltraThinkResult.finalSolution res = synthesis res"
    and ev: "events st = events st1 @
             [Ev_progress (''Running '' @ decimal (totalAgents res) @ '' agents in parallel...''),
              Ev_progress ''Synthesizing results...'', Ev_success (synthesis res) 1]"
    and cl: "calls st = calls st1 @
             [CreateModelProvider (getModelForStage opts Stage_synthesis),
              GenerateText (Req_synthesis (problemStatement opts)
                (agentResultsText (agentResults res)))]"
    by blast
  have s1: "success_events st1 = []"
  proof -
    from plan_and_configure_quiet(2) [of rt opts orc] pc show ?thesis by simp
  qed
  from ev s1 have se: "success_events st = [Ev_success (synthesis res) 1]"
    by (simp add: success_events_def)
  from ev have le: "last (events st) = Ev_success (synthesis res) 1" by simp
  from cl have lc: "last (calls st) =
           GenerateText (Req_synthesis (problemStatement opts)
             (agentResultsText (agentResults res)))" by simp
  show "\<exists>res st. UltraThinkEngine_run rt opts orc agents = Some (Inr res, st) \<and>
         last (calls st) =
           GenerateText (Req_synthesis (problemStatement opts)
             (agentResultsText (agentResults res))) \<and>
         last (events st) = Ev_success (synthesis res) 1 \<and>
         success_events st = [Ev_success (synthesis res) 1] \<and>
         UltraThinkResult.finalSolution res = synthesis res \<and>
         completedAgents res =
           length (filter (\<lambda>r. AgentResult.status r = completed) (agentResults res))"
    apply (rule exI [of _ res])
    apply (rule exI [of _ st])
    apply (intro conjI)
         apply (rule run)
        apply (rule lc)
       apply (rule le)
      apply (rule se)
     apply (rule fs)
    apply (rule ca)
    done
qed

text \<open>Two agents that both fail: \<open>completedAgents = 0\<close>, and the run still ends in success.\<close>

theorem orchestration_never_emits_failure_witness:
  "responsive planner_port \<and>
   (\<exists>res st. UltraThinkEngine_run sample_runtime uncapped_options planner_port
        (\<lambda>k. silent_error_port) = Some (Inr res, st) \<and>
      failure_events st = [] \<and> last (events st) = Ev_success (synthesis res) 1 \<and>
      totalAgents res = 2 \<and> completedAgents res = 0)"
proof -
  let ?agents = "\<lambda>k::nat. silent_error_port"
  obtain st1 where pc: "plan_and_configure sample_runtime uncapped_options planner_port =
     (Inr (''Yes.'', JArr (map json_of_AgentConfig sample_configs)), st1)"
    using planner_reaches_dispatch by blast
  note never = orchestration_never_emits_failure
    [of sample_runtime uncapped_options planner_port ?agents]
  from never pc as_AgentConfigs_json planner_port_responsive
  obtain res st where run:
    "UltraThinkEngine_run sample_runtime uncapped_options planner_port ?agents
       = Some (Inr res, st)"
    "last (events st) = Ev_success (synthesis res) 1"
    "completedAgents res =
       length (filter (\<lambda>r. AgentResult.status r = completed) (agentResults res))"
    by blast
  from never run(1) have nf: "failure_events st = []" by blast
  from UltraThinkEngine_run_returns [OF pc as_AgentConfigs_json planner_port_responsive,
      of ?agents] run(1)
  have ar: "agentResults res = run_agents uncapped_options ?agents
      (select_configs (numAgents uncapped_options) sample_configs)
      (problemStatement uncapped_options)"
    and ta: "totalAgents res = length (select_configs (numAgents uncapped_options) sample_configs)"
    by auto
  from ta have t2: "totalAgents res = 2"
    by (simp add: uncapped_options_def select_configs_def sample_configs_def)
  from run(3) ar have c0: "completedAgents res = 0"
    by (simp add: run_agents_all_silent_error)
  from run(1,2) nf t2 c0 planner_port_responsive show ?thesis
    by blast
qed

end
